theory Spec2Isabelle
  imports Complex_Main "HOL-Library.Log_Nat"
begin

section \<open>Python values and exceptions\<close>

text \<open>
  The constructors of the repository test the dynamic type of their arguments
  (\<^verbatim>\<open>isinstance(dims, int)\<close>, \<^verbatim>\<open>isinstance(img_dims, tuple)\<close>), so the arguments
  they inspect are modelled as dynamically typed values. A raised exception is a
  value \<open>Inl e\<close> of the result type \<open>error + 'a\<close>; the messages are the
  ones of the source. \<open>CircuitError q n\<close> is the circuit library's error for a qubit
  index outside a circuit, "Index q out of range for size n."
\<close>

datatype error =
    TypeError string
  | ValueError string
  | IndexError string
  | NameError string
  | CircuitError int int

datatype pyval =
    PyNone
  | PyBool bool
  | PyInt int
  | PyFloat real
  | PyStr string
  | PyTuple "pyval list"
  | PyList "pyval list"

text \<open>\<^verbatim>\<open>isinstance(v, int)\<close>: \<^verbatim>\<open>bool\<close> is a subclass of \<^verbatim>\<open>int\<close> in Python.\<close>

fun isinstance_int :: "pyval \<Rightarrow> bool" where
  "isinstance_int (PyInt i) = True"
| "isinstance_int (PyBool b) = True"
| "isinstance_int v = False"

fun isinstance_tuple :: "pyval \<Rightarrow> bool" where
  "isinstance_tuple (PyTuple xs) = True"
| "isinstance_tuple v = False"

fun isinstance_bool :: "pyval \<Rightarrow> bool" where
  "isinstance_bool (PyBool b) = True"
| "isinstance_bool v = False"

text \<open>
  Iterating a value (\<^verbatim>\<open>for dims in img_dims\<close>): tuples, lists and strings are
  iterable, a string yields its characters as one-character strings; iterating
  \<^verbatim>\<open>None\<close> or a number raises a \<^verbatim>\<open>TypeError\<close> whose message names the type between
  apostrophes (the character \<open>0x27\<close>).
\<close>

fun type_name :: "pyval \<Rightarrow> string" where
  "type_name PyNone = ''NoneType''"
| "type_name (PyBool b) = ''bool''"
| "type_name (PyInt i) = ''int''"
| "type_name (PyFloat x) = ''float''"
| "type_name (PyStr s) = ''str''"
| "type_name (PyTuple xs) = ''tuple''"
| "type_name (PyList xs) = ''list''"

definition not_iterable :: "pyval \<Rightarrow> error" where
  "not_iterable v = TypeError ([CHR 0x27] @ type_name v @ [CHR 0x27] @ '' object is not iterable'')"

fun py_iter :: "pyval \<Rightarrow> error + pyval list" where
  "py_iter (PyTuple xs) = Inr xs"
| "py_iter (PyList xs) = Inr xs"
| "py_iter (PyStr s) = Inr (map (\<lambda>c. PyStr [c]) s)"
| "py_iter v = Inl (not_iterable v)"

text \<open>
  The integer a validated \<^verbatim>\<open>int\<close> stands for (\<^verbatim>\<open>True\<close> is 1, \<^verbatim>\<open>False\<close> is 0). The
  constructors call it only on values that passed \<^verbatim>\<open>isinstance(v, int)\<close>.
\<close>

fun int_value :: "pyval \<Rightarrow> int" where
  "int_value (PyInt i) = i"
| "int_value (PyBool b) = (if b then 1 else 0)"
| "int_value v = 0"

fun tuple_items :: "pyval \<Rightarrow> pyval list" where
  "tuple_items (PyTuple xs) = xs"
| "tuple_items v = []"

text \<open>\<^verbatim>\<open>math.prod\<close>: the product of the elements, starting from 1, left to right.\<close>

definition math_prod :: "int list \<Rightarrow> int" where
  "math_prod ds = fold (\<lambda>d acc. acc * d) ds 1"

text \<open>
  \<^verbatim>\<open>all(isinstance(dims, int) for dims in img_dims)\<close>: raises where the
  iteration does.
\<close>

definition all_isinstance_int :: "pyval \<Rightarrow> error + bool" where
  "all_isinstance_int v =
     (case py_iter v of
        Inl e \<Rightarrow> Inl e
      | Inr xs \<Rightarrow> Inr (list_all isinstance_int xs))"


section \<open>The circuit library\<close>

text \<open>
  \<^verbatim>\<open>QuantumCircuit\<close> belongs to the external circuit library. A circuit is
  modelled by its number of qubits and the list of the instructions appended to
  it, in order. \<^verbatim>\<open>h\<close> and \<^verbatim>\<open>mct\<close> look up the qubits they are given, in the order
  of their arguments (for \<^verbatim>\<open>mct\<close> the controls, then the target), and raise a
  \<^verbatim>\<open>CircuitError\<close> at the first index outside the circuit; as in a Python list, an
  index from \<open>- n\<close> to \<open>n - 1\<close> is inside a circuit of \<open>n\<close> qubits. Otherwise they
  append their instruction. \<^verbatim>\<open>compose(..., inplace=True)\<close> appends the block it is
  given on the qubits it is given: \<open>'b\<close> is the type of the blocks, about which
  nothing is known here, and \<^verbatim>\<open>mps_backbone\<close> composes on the neighbours \<open>i\<close> and
  \<open>i + 1\<close> of its own circuit only.
\<close>

datatype 'b instruction =
    HGate int
  | XGate int
  | MCXGate "int list" int
  | Composed 'b "int list"

record 'b QuantumCircuit =
  qc_num_qubits :: int
  qc_data :: "'b instruction list"

definition QuantumCircuit :: "int \<Rightarrow> 'b QuantumCircuit" where
  "QuantumCircuit n = \<lparr>qc_num_qubits = n, qc_data = []\<rparr>"

definition append_instruction :: "'b instruction \<Rightarrow> 'b QuantumCircuit \<Rightarrow> 'b QuantumCircuit" where
  "append_instruction g c = c\<lparr>qc_data := qc_data c @ [g]\<rparr>"

definition qubit_in_range :: "int \<Rightarrow> int \<Rightarrow> bool" where
  "qubit_in_range n q \<longleftrightarrow> - n \<le> q \<and> q < n"

definition check_qubits :: "int list \<Rightarrow> 'b QuantumCircuit \<Rightarrow> error + unit" where
  "check_qubits qubits c =
     (case filter (\<lambda>q. \<not> qubit_in_range (qc_num_qubits c) q) qubits of
        [] \<Rightarrow> Inr ()
      | q # rest \<Rightarrow> Inl (CircuitError q (qc_num_qubits c)))"

definition h :: "int \<Rightarrow> 'b QuantumCircuit \<Rightarrow> error + 'b QuantumCircuit" where
  "h qubit c =
     (case check_qubits [qubit] c of
        Inl e \<Rightarrow> Inl e
      | Inr u \<Rightarrow> Inr (append_instruction (HGate qubit) c))"

definition mct :: "int list \<Rightarrow> int \<Rightarrow> 'b QuantumCircuit \<Rightarrow> error + 'b QuantumCircuit" where
  "mct control_qubits target_qubit c =
     (case check_qubits (control_qubits @ [target_qubit]) c of
        Inl e \<Rightarrow> Inl e
      | Inr u \<Rightarrow> Inr (append_instruction (MCXGate control_qubits target_qubit) c))"

definition compose :: "'b \<Rightarrow> int list \<Rightarrow> 'b QuantumCircuit \<Rightarrow> 'b QuantumCircuit" where
  "compose block qubits = append_instruction (Composed block qubits)"

text \<open>
  \<^verbatim>\<open>ParameterVector(name, length)\<close>: the parameters \<^verbatim>\<open>name[0]\<close>, ...,
  \<^verbatim>\<open>name[length - 1]\<close>.
\<close>

type_synonym parameter = "string \<times> int"

definition ParameterVector :: "string \<Rightarrow> int \<Rightarrow> parameter list" where
  "ParameterVector name len = map (\<lambda>i. (name, i)) [0..len - 1]"


section \<open>mps.py: the Matrix Product State circuit\<close>

record 'b MPS =
  img_dims :: pyval
  num_qubits :: int
  circuit :: "'b QuantumCircuit"

definition img_dims_type_msg :: string where
  "img_dims_type_msg = ''Input img_dims must be of the type tuple[int, int].''"

definition img_dims_value_msg :: string where
  "img_dims_value_msg = ''Image dimensions cannot be zero or negative.''"

text \<open>
  \<^verbatim>\<open>MPS.__init__\<close> (mps.py, lines 28 to 47). The attribute \<^verbatim>\<open>q_reg\<close> is the list of the
  circuit's qubits, which the number of qubits determines; it has no field of its own.
\<close>

definition MPS_init :: "pyval \<Rightarrow> error + 'b MPS" where
  "MPS_init dims =
     (case all_isinstance_int dims of
        Inl e \<Rightarrow> Inl e
      | Inr all_int \<Rightarrow>
          if \<not> all_int \<or> \<not> isinstance_tuple dims then Inl (TypeError img_dims_type_msg)
          else if math_prod (map int_value (tuple_items dims)) \<le> 0
            then Inl (ValueError img_dims_value_msg)
          else Inr \<lparr>img_dims = dims,
                    num_qubits = math_prod (map int_value (tuple_items dims)),
                    circuit = QuantumCircuit (math_prod (map int_value (tuple_items dims)))\<rparr>)"

text \<open>
  \<^verbatim>\<open>MPS.mps_backbone\<close> (lines 116 to 148). The loop state is the stored circuit
  and the local \<^verbatim>\<open>param_vector_copy\<close>; \<^verbatim>\<open>gate_structure\<close> is any callable that
  returns a pair of a block and the remaining parameters. \<open>mps_backbone_locals\<close>
  is the state at the exit of the loop, \<open>mps_backbone\<close> what the method returns
  (the stored circuit) together with the updated object.
\<close>

primrec mps_backbone_loop ::
  "int list \<Rightarrow> ('p \<Rightarrow> bool \<Rightarrow> 'b \<times> 'p) \<Rightarrow> bool \<Rightarrow> 'b QuantumCircuit \<times> 'p \<Rightarrow> 'b QuantumCircuit \<times> 'p" where
  "mps_backbone_loop [] gate_structure complex_structure st = st"
| "mps_backbone_loop (index # rest) gate_structure complex_structure st =
     (case gate_structure (snd st) complex_structure of
        (unitary_block, param_vector_copy) \<Rightarrow>
          mps_backbone_loop rest gate_structure complex_structure
            (compose unitary_block [index, index + 1] (fst st), param_vector_copy))"

definition mps_backbone_locals ::
  "('p \<Rightarrow> bool \<Rightarrow> 'b \<times> 'p) \<Rightarrow> 'p \<Rightarrow> bool \<Rightarrow> 'b MPS \<Rightarrow> 'b QuantumCircuit \<times> 'p" where
  "mps_backbone_locals gate_structure param_vector_copy complex_structure self =
     mps_backbone_loop [0..num_qubits self - 1 - 1] gate_structure complex_structure
       (circuit self, param_vector_copy)"

definition mps_backbone ::
  "('p \<Rightarrow> bool \<Rightarrow> 'b \<times> 'p) \<Rightarrow> 'p \<Rightarrow> bool \<Rightarrow> 'b MPS \<Rightarrow> 'b QuantumCircuit \<times> 'b MPS" where
  "mps_backbone gate_structure param_vector_copy complex_structure self =
     (let c = fst (mps_backbone_locals gate_structure param_vector_copy complex_structure self)
      in (c, self\<lparr>circuit := c\<rparr>))"

text \<open>
  \<^verbatim>\<open>MPS.mps_simple\<close> and \<^verbatim>\<open>MPS.mps_general\<close> (lines 54 to 100). The two
  parameterizations of \<^verbatim>\<open>TwoQubitUnitary\<close> are not in the sources and are taken as
  parameters. The \<open>_locals\<close> variants give the loop's exit state, to speak about the
  parameters left over.
\<close>

definition mps_simple_params :: "'b MPS \<Rightarrow> parameter list" where
  "mps_simple_params self = ParameterVector ''theta'' (2 * num_qubits self - 2)"

definition mps_general_params :: "bool \<Rightarrow> 'b MPS \<Rightarrow> parameter list" where
  "mps_general_params complex_structure self =
     (if complex_structure then ParameterVector ''theta'' (15 * num_qubits self - 2)
      else ParameterVector ''theta'' (6 * num_qubits self - 2))"

definition mps_simple ::
  "(parameter list \<Rightarrow> bool \<Rightarrow> 'b \<times> parameter list) \<Rightarrow> bool \<Rightarrow> 'b MPS \<Rightarrow> 'b QuantumCircuit \<times> 'b MPS" where
  "mps_simple simple_parameterization complex_structure self =
     mps_backbone simple_parameterization (mps_simple_params self) complex_structure self"

definition mps_general ::
  "(parameter list \<Rightarrow> bool \<Rightarrow> 'b \<times> parameter list) \<Rightarrow> bool \<Rightarrow> 'b MPS \<Rightarrow> 'b QuantumCircuit \<times> 'b MPS" where
  "mps_general general_parameterization complex_structure self =
     mps_backbone general_parameterization (mps_general_params complex_structure self)
       complex_structure self"

definition mps_simple_locals ::
  "(parameter list \<Rightarrow> bool \<Rightarrow> 'b \<times> parameter list) \<Rightarrow> bool \<Rightarrow> 'b MPS \<Rightarrow> 'b QuantumCircuit \<times> parameter list" where
  "mps_simple_locals simple_parameterization complex_structure self =
     mps_backbone_locals simple_parameterization (mps_simple_params self) complex_structure self"

definition mps_general_locals ::
  "(parameter list \<Rightarrow> bool \<Rightarrow> 'b \<times> parameter list) \<Rightarrow> bool \<Rightarrow> 'b MPS \<Rightarrow> 'b QuantumCircuit \<times> parameter list" where
  "mps_general_locals general_parameterization complex_structure self =
     mps_backbone_locals general_parameterization (mps_general_params complex_structure self)
       complex_structure self"


section \<open>neqr.py: the Novel Enhanced Quantum Representation\<close>

subsection \<open>What the sources do not contain\<close>

text \<open>
  \<^verbatim>\<open>NEQR.__init__\<close> starts with \<^verbatim>\<open>ImageEmbedding.__init__(self, img_dims, pixel_vals)\<close>
  and \<^verbatim>\<open>self.validate_square_images()\<close>; neither \<^verbatim>\<open>image_embedding.py\<close> nor the mixin
  is among the sources. The image dimensions are the pair of integers of the
  signature (\<^verbatim>\<open>tuple[int, int]\<close>) and the pixel values a list of integers.
\<close>

definition pixel_len_msg :: string where
  "pixel_len_msg = ''No. of pixels in pixel_vals must be equal to the product of image dimensions.''"

definition pixel_range_msg :: string where
  "pixel_range_msg = ''Pixel values cannot be less than 0 or greater than 255.''"

definition square_images_msg :: string where
  "square_images_msg = ''NEQR supports square images only. Input img_dims must have same dimensions.''"

text \<open>
  Modelled from the spec: \<^verbatim>\<open>ImageEmbedding.__init__\<close> is missing from the sources. The
  spec (section 7) limits validation to constructor-time checks that raise value
  errors, among them "pixel values in [0,255]"; the repository's tests expect a
  \<^verbatim>\<open>ValueError\<close> when the number of pixel values differs from the product of the image
  dimensions. The constructor stores both arguments, which \<^verbatim>\<open>NEQR\<close> reads back as
  \<^verbatim>\<open>self.img_dims\<close> and \<^verbatim>\<open>self.pixel_vals\<close>.
\<close>

definition ImageEmbedding_init :: "int \<times> int \<Rightarrow> int list \<Rightarrow> error + (int \<times> int) \<times> int list" where
  "ImageEmbedding_init dims pixels =
     (if int (length pixels) \<noteq> math_prod [fst dims, snd dims] then Inl (ValueError pixel_len_msg)
      else if \<not> list_all (\<lambda>v. 0 \<le> v \<and> v \<le> 255) pixels then Inl (ValueError pixel_range_msg)
      else Inr (dims, pixels))"

text \<open>
  Modelled from the spec: \<^verbatim>\<open>ImageMixin.validate_square_images\<close> is missing from the
  sources. The spec (section 7): "image dimensions must be square"; the repository's
  test \<^verbatim>\<open>test_init_square_images\<close> expects a \<^verbatim>\<open>ValueError\<close> for the dimensions (2, 3).
\<close>

definition validate_square_images :: "int \<times> int \<Rightarrow> error + unit" where
  "validate_square_images dims =
     (if fst dims \<noteq> snd dims then Inl (ValueError square_images_msg) else Inr ())"

subsection \<open>Numeric helpers\<close>

text \<open>
  \<^verbatim>\<open>int(np.ceil(np.sqrt(n)))\<close> and \<^verbatim>\<open>int(np.ceil(math.log(x, 2)))\<close>, computed on
  integers: the least \<open>k\<close> with \<open>n \<le> k * k\<close>, and the least \<open>k\<close> with \<open>x \<le> 2 ^ k\<close>.
  These are the exact values of the two expressions; the rounding of the floating-point
  operations is not modelled. The square root of a negative number is NaN, which
  \<^verbatim>\<open>int\<close> refuses, and \<^verbatim>\<open>math.log\<close> refuses an argument that is not positive.
\<close>

function ceil_sqrt_from :: "nat \<Rightarrow> nat \<Rightarrow> nat" where
  "ceil_sqrt_from k n = (if n \<le> k * k then k else ceil_sqrt_from (Suc k) n)"
  by pat_completeness auto
termination
proof (relation "measure (\<lambda>(k, n). n - k)")
  show "wf (measure (\<lambda>(k, n). n - k))" by simp
next
  fix k n :: nat
  assume "\<not> n \<le> k * k"
  then have "k * k < n" by simp
  moreover have "k \<le> k * k" by (cases k) simp_all
  ultimately have "k < n" by (rule le_less_trans [rotated])
  then show "((Suc k, n), (k, n)) \<in> measure (\<lambda>(k, n). n - k)" by simp
qed

function ceil_log2_from :: "nat \<Rightarrow> nat \<Rightarrow> nat" where
  "ceil_log2_from k x = (if x \<le> 2 ^ k then k else ceil_log2_from (Suc k) x)"
  by pat_completeness auto
termination
proof (relation "measure (\<lambda>(k, x). x - k)")
  show "wf (measure (\<lambda>(k, x). x - k))" by simp
next
  fix k x :: nat
  assume "\<not> x \<le> 2 ^ k"
  then have "2 ^ k < x" by simp
  moreover have "k < 2 ^ k" by (rule less_exp)
  ultimately have "k < x" by (rule less_trans [rotated])
  then show "((Suc k, x), (k, x)) \<in> measure (\<lambda>(k, x). x - k)" by simp
qed

declare ceil_sqrt_from.simps [simp del]
declare ceil_log2_from.simps [simp del]

definition int_ceil_sqrt :: "int \<Rightarrow> error + int" where
  "int_ceil_sqrt n =
     (if n < 0 then Inl (ValueError ''cannot convert float NaN to integer'')
      else Inr (int (ceil_sqrt_from 0 (nat n))))"

definition int_ceil_log2 :: "int \<Rightarrow> error + int" where
  "int_ceil_log2 x =
     (if x \<le> 0 then Inl (ValueError ''math domain error'')
      else Inr (int (ceil_log2_from 0 (nat x))))"

text \<open>
  The format specification \<^verbatim>\<open>0>Wb\<close>: the binary digits of the integer (with a minus
  sign in front when it is negative), padded on the left with the character 0 to at
  least \<open>W\<close> characters.
\<close>

definition digit_char :: "nat \<Rightarrow> char" where
  "digit_char d = (if d = 0 then CHR ''0'' else CHR ''1'')"

function bin_digits :: "nat \<Rightarrow> string" where
  "bin_digits n = (if n < 2 then [digit_char n] else bin_digits (n div 2) @ [digit_char (n mod 2)])"
  by pat_completeness auto
termination
  by (relation "measure (\<lambda>n. n)") auto

declare bin_digits.simps [simp del]

definition format_bin :: "nat \<Rightarrow> int \<Rightarrow> string" where
  "format_bin width v =
     (let digits = (if v < 0 then CHR ''-'' # bin_digits (nat (- v)) else bin_digits (nat v))
      in replicate (width - length digits) (CHR ''0'') @ digits)"

text \<open>Indexing a Python sequence: a negative index counts from the end.\<close>

definition py_index :: "string \<Rightarrow> 'a list \<Rightarrow> int \<Rightarrow> error + 'a" where
  "py_index msg xs i =
     (if 0 \<le> i \<and> i < int (length xs) then Inr (xs ! nat i)
      else if i < 0 \<and> - int (length xs) \<le> i then Inr (xs ! nat (int (length xs) + i))
      else Inl (IndexError msg))"

subsection \<open>The class\<close>

record 'b NEQR =
  neqr_img_dims :: "int \<times> int"
  pixel_vals :: "int list"
  feature_dim :: int
  max_color_intensity :: int
  color_qubits :: int
  neqr_circuit :: "'b QuantumCircuit"

definition max_color_msg :: string where
  "max_color_msg = ''Maximum color intensity cannot be less than 0 or greater than 255.''"

text \<open>
  \<^verbatim>\<open>NEQR.__init__\<close> (neqr.py, lines 15 to 37). The attribute \<^verbatim>\<open>qr\<close> is the list of the
  circuit's qubits, which the number of qubits determines; it has no field of its own.
\<close>

definition NEQR_init :: "int \<times> int \<Rightarrow> int list \<Rightarrow> int \<Rightarrow> error + 'b NEQR" where
  "NEQR_init dims pixels max_color =
     (case ImageEmbedding_init dims pixels of
        Inl e \<Rightarrow> Inl e
      | Inr (self_img_dims, self_pixel_vals) \<Rightarrow>
     (case validate_square_images self_img_dims of
        Inl e \<Rightarrow> Inl e
      | Inr u \<Rightarrow>
          if max_color < 0 \<or> max_color > 255 then Inl (ValueError max_color_msg)
          else
     (case int_ceil_sqrt (math_prod [fst self_img_dims, snd self_img_dims]) of
        Inl e \<Rightarrow> Inl e
      | Inr fd \<Rightarrow>
     (case int_ceil_log2 (max_color + 1) of
        Inl e \<Rightarrow> Inl e
      | Inr cq \<Rightarrow>
          Inr \<lparr>neqr_img_dims = self_img_dims, pixel_vals = self_pixel_vals,
               feature_dim = fd, max_color_intensity = max_color + 1,
               color_qubits = cq, neqr_circuit = QuantumCircuit (fd + cq)\<rparr>))))"

text \<open>
  \<^verbatim>\<open>NEQR.pixel_value\<close> (lines 44 to 53): the loop over
  \<^verbatim>\<open>enumerate(color_byte)\<close>, which an exception of \<^verbatim>\<open>mct\<close> leaves, then the method.
\<close>

primrec pixel_value_loop ::
  "(nat \<times> char) list \<Rightarrow> int list \<Rightarrow> int \<Rightarrow> 'b QuantumCircuit \<Rightarrow> error + 'b QuantumCircuit" where
  "pixel_value_loop [] control_qubits fd c = Inr c"
| "pixel_value_loop (ic # rest) control_qubits fd c =
     (if snd ic = CHR ''1''
      then (case mct control_qubits (fd + int (fst ic)) c of
              Inl e \<Rightarrow> Inl e
            | Inr c' \<Rightarrow> pixel_value_loop rest control_qubits fd c')
      else pixel_value_loop rest control_qubits fd c)"

definition pixel_value :: "'b NEQR \<Rightarrow> int \<Rightarrow> error + 'b NEQR" where
  "pixel_value self pixel_pos =
     (case py_index ''list index out of range'' (pixel_vals self) pixel_pos of
        Inl e \<Rightarrow> Inl e
      | Inr v \<Rightarrow>
     (case pixel_value_loop (enumerate 0 (format_bin 8 v)) [0..feature_dim self - 1]
             (feature_dim self) (neqr_circuit self) of
        Inl e \<Rightarrow> Inl e
      | Inr c \<Rightarrow> Inr (self\<lparr>neqr_circuit := c\<rparr>)))"

text \<open>
  \<^verbatim>\<open>NEQR.build_circuit\<close> (lines 55 to 78): the loop of the Hadamard gates, the loop
  over the pixels, then the method. \<^verbatim>\<open>pixel_position\<close> comes from the mixin, which is
  not among the sources: it is a parameter, any function that takes the binary string
  and updates the circuit.
\<close>

primrec hadamard_loop :: "int list \<Rightarrow> 'b QuantumCircuit \<Rightarrow> error + 'b QuantumCircuit" where
  "hadamard_loop [] c = Inr c"
| "hadamard_loop (i # rest) c =
     (case h i c of
        Inl e \<Rightarrow> Inl e
      | Inr c' \<Rightarrow> hadamard_loop rest c')"

primrec build_circuit_loop ::
  "int list \<Rightarrow> (string \<Rightarrow> 'b QuantumCircuit \<Rightarrow> 'b QuantumCircuit) \<Rightarrow> 'b NEQR \<Rightarrow> error + 'b NEQR" where
  "build_circuit_loop [] pixel_position self = Inr self"
| "build_circuit_loop (pixel # rest) pixel_position self =
     (let pixel_pos_binary = format_bin 2 pixel;
          self1 = self\<lparr>neqr_circuit := pixel_position pixel_pos_binary (neqr_circuit self)\<rparr>
      in case pixel_value self1 pixel of
           Inl e \<Rightarrow> Inl e
         | Inr self2 \<Rightarrow>
             build_circuit_loop rest pixel_position
               (self2\<lparr>neqr_circuit := pixel_position pixel_pos_binary (neqr_circuit self2)\<rparr>))"

definition build_circuit ::
  "(string \<Rightarrow> 'b QuantumCircuit \<Rightarrow> 'b QuantumCircuit) \<Rightarrow> 'b NEQR \<Rightarrow> error + 'b QuantumCircuit \<times> 'b NEQR" where
  "build_circuit pixel_position self =
     (case hadamard_loop [0..feature_dim self - 1] (neqr_circuit self) of
        Inl e \<Rightarrow> Inl e
      | Inr c \<Rightarrow>
     (let num_theta = math_prod [fst (neqr_img_dims self), snd (neqr_img_dims self)]
      in case build_circuit_loop [0..num_theta - 1] pixel_position (self\<lparr>neqr_circuit := c\<rparr>) of
           Inl e \<Rightarrow> Inl e
         | Inr self2 \<Rightarrow> Inr (neqr_circuit self2, self2)))"


section \<open>quanvolutional_layer.py: the quanvolutional layer\<close>

text \<open>
  \<^verbatim>\<open>BaseLayer.__init__\<close>, \<^verbatim>\<open>produce_sub_images\<close> and the library's
  \<^verbatim>\<open>random_circuit\<close> are not among the sources; the functions below take them as
  parameters. \<^verbatim>\<open>random_circuit\<close> draws from a generator, whose state \<open>'g\<close> it takes and
  returns.
\<close>

record 'base QuanvolutionalLayer =
  ql_img_dims :: pyval
  ql_base :: 'base
  filter_size :: pyval
  stride :: pyval
  ql_random :: bool
  ql_pixel_vals :: pyval

definition ql_img_dims_msg :: string where
  "ql_img_dims_msg = ''Input img_dims must be of the type tuple[int, ...].''"

definition filter_type_msg :: string where
  "filter_type_msg = ''The input filter_size must be of the type tuple[int, int].''"

definition filter_value_msg :: string where
  "filter_value_msg = ''The filter_size must be less than or equal to the minimum image dimension.''"

definition stride_type_msg :: string where
  "stride_type_msg = ''The input stride must be of the type int.''"

definition stride_value_msg :: string where
  "stride_value_msg = ''The input stride must be at least 1 and less than or equal to the minimum image dimension.''"

definition random_type_msg :: string where
  "random_type_msg = ''The input random must be of the type bool.''"

text \<open>\<^verbatim>\<open>min\<close> of a sequence of integers; the empty sequence raises.\<close>

definition py_min :: "int list \<Rightarrow> error + int" where
  "py_min ds =
     (case ds of
        [] \<Rightarrow> Inl (ValueError ''min() arg is an empty sequence'')
      | d # rest \<Rightarrow> Inr (fold min rest d))"

text \<open>
  \<^verbatim>\<open>QuanvolutionalLayer.__init__\<close> (quanvolutional_layer.py, lines 25 to 88). The
  argument \<^verbatim>\<open>embedding\<close> is never read and is left out.
\<close>

definition QuanvolutionalLayer_init ::
  "(int \<Rightarrow> error + 'base) \<Rightarrow> pyval \<Rightarrow> pyval \<Rightarrow> pyval \<Rightarrow> pyval \<Rightarrow> pyval
     \<Rightarrow> error + 'base QuanvolutionalLayer" where
  "QuanvolutionalLayer_init BaseLayer_init dims fsize strd pixels rnd =
     (case all_isinstance_int dims of
        Inl e \<Rightarrow> Inl e
      | Inr all_int \<Rightarrow>
          if \<not> all_int \<or> \<not> isinstance_tuple dims then Inl (TypeError ql_img_dims_msg)
          else
     (case BaseLayer_init (math_prod (map int_value (tuple_items dims))) of
        Inl e \<Rightarrow> Inl e
      | Inr b \<Rightarrow>
          if \<not> isinstance_tuple fsize \<or> \<not> list_all isinstance_int (tuple_items fsize)
            then Inl (TypeError filter_type_msg)
          else
     (case py_index ''tuple index out of range'' (tuple_items fsize) 0 of
        Inl e \<Rightarrow> Inl e
      | Inr f0 \<Rightarrow>
     (case py_min (map int_value (tuple_items dims)) of
        Inl e \<Rightarrow> Inl e
      | Inr min_dim \<Rightarrow>
          if int_value f0 > min_dim then Inl (ValueError filter_value_msg)
          else if \<not> isinstance_int strd then Inl (TypeError stride_type_msg)
          else if int_value strd \<le> 0 \<or> int_value strd > min_dim
            then Inl (ValueError stride_value_msg)
          else if \<not> isinstance_bool rnd then Inl (TypeError random_type_msg)
          else Inr \<lparr>ql_img_dims = dims, ql_base = b, filter_size = fsize, stride = strd,
                    ql_random = (rnd = PyBool True), ql_pixel_vals = pixels\<rparr>))))"

text \<open>
  Modelled from the spec: \<^verbatim>\<open>base_layer.py\<close> is missing from the sources, and the spec
  names no validation of its own for the base class. This instance, which keeps the
  number of qubits, is used where an example needs a concrete base constructor.
\<close>

definition BaseLayer_init :: "int \<Rightarrow> error + int" where
  "BaseLayer_init n = Inr n"

text \<open>
  \<^verbatim>\<open>QuanvolutionalLayer.build_sub_circuits\<close> (lines 90 to 104): a Python function
  that ends without \<^verbatim>\<open>return\<close> returns \<^verbatim>\<open>None\<close>.
\<close>

definition build_sub_circuits ::
  "(int \<Rightarrow> int \<Rightarrow> int \<Rightarrow> bool \<Rightarrow> 'g \<Rightarrow> 'c \<times> 'g) \<Rightarrow> 'base QuanvolutionalLayer \<Rightarrow> 's \<Rightarrow> 'g
     \<Rightarrow> 'c option \<times> 'g" where
  "build_sub_circuits random_circuit self sub_image g =
     (if ql_random self
      then (case random_circuit 1 2 3 True g of (sub_circuit, g') \<Rightarrow> (Some sub_circuit, g'))
      else (None, g))"

text \<open>
  \<^verbatim>\<open>QuanvolutionalLayer.build_layer\<close> (lines 106 to 123). The name
  \<^verbatim>\<open>circuit_list\<close> of the \<^verbatim>\<open>return\<close> statement is bound nowhere: not in the function,
  not in the module, not among the builtins. Looking it up raises a \<^verbatim>\<open>NameError\<close>
  (Python's message puts the name between quotation marks).
\<close>

definition build_layer ::
  "(pyval \<Rightarrow> pyval \<Rightarrow> error + 's) \<Rightarrow> 'base QuanvolutionalLayer \<Rightarrow> error + 'c list \<times> 'u list" where
  "build_layer produce_sub_images self =
     (case produce_sub_images (filter_size self) (ql_pixel_vals self) of
        Inl e \<Rightarrow> Inl e
      | Inr sub_images \<Rightarrow> Inl (NameError ''name circuit_list is not defined''))"


section \<open>Notions used in the statements\<close>

text \<open>
  "A tuple whose elements are all ints", and the product of its elements.
\<close>

fun is_int_tuple :: "pyval \<Rightarrow> bool" where
  "is_int_tuple (PyTuple xs) = list_all isinstance_int xs"
| "is_int_tuple v = False"

definition prod_of :: "pyval \<Rightarrow> int" where
  "prod_of dims = math_prod (map int_value (tuple_items dims))"

text \<open>
  A gate structure for the examples: each block takes the first two parameters and
  hands on the rest.
\<close>

definition two_per_block :: "parameter list \<Rightarrow> bool \<Rightarrow> parameter list \<times> parameter list" where
  "two_per_block p cs = (take 2 p, drop 2 p)"


text \<open>
  For the examples of the quanvolutional layer: a patch decomposition that returns the
  whole image as its only patch, a generator that returns the description of the
  circuit asked for and counts its calls, and the layer built from a 2 by 2 image
  with a 2 by 2 filter and stride 1.
\<close>

definition whole_image :: "pyval \<Rightarrow> pyval \<Rightarrow> error + pyval list" where
  "whole_image fsize pixels = Inr [pixels]"

definition described_circuit ::
  "int \<Rightarrow> int \<Rightarrow> int \<Rightarrow> bool \<Rightarrow> nat \<Rightarrow> (int \<times> int \<times> bool \<times> nat) \<times> nat" where
  "described_circuit n depth max_operands with_measure g = ((n, depth, with_measure, g), Suc g)"

definition example_layer :: "int QuanvolutionalLayer" where
  "example_layer =
     \<lparr>ql_img_dims = PyTuple [PyInt 2, PyInt 2], ql_base = 4,
      filter_size = PyTuple [PyInt 2, PyInt 2], stride = PyInt 1, ql_random = True,
      ql_pixel_vals = PyList [PyInt 0, PyInt 1, PyInt 2, PyInt 3]\<rparr>"

text \<open>
  For the examples of the NEQR encoding: the object built from a 2 by 2 image with the
  pixel values 0 to 3 and the default maximum intensity 255.
\<close>

definition example_neqr :: "unit NEQR" where
  "example_neqr =
     \<lparr>neqr_img_dims = (2, 2), pixel_vals = [0, 1, 2, 3], feature_dim = 2,
      max_color_intensity = 256, color_qubits = 8, neqr_circuit = QuantumCircuit 10\<rparr>"

text \<open>
  The statements about the NEQR circuit speak of appending a list of instructions, of
  the gates for a color value (one multi-controlled X for each 1 among the eight bits
  of the value, most significant bit first, controlled by the position qubits and
  aimed at the qubit \<open>feature_dim +\<close> index of the bit), and of the number a string of
  binary digits denotes.
\<close>

definition append_instructions :: "'b instruction list \<Rightarrow> 'b QuantumCircuit \<Rightarrow> 'b QuantumCircuit" where
  "append_instructions gs c = c\<lparr>qc_data := qc_data c @ gs\<rparr>"

definition color_gates :: "int \<Rightarrow> int \<Rightarrow> 'b instruction list" where
  "color_gates fd v =
     map (\<lambda>i. MCXGate [0..fd - 1] (fd + int i)) (filter (\<lambda>i. bit v (7 - i)) [0..<8])"

definition binary_value :: "string \<Rightarrow> int" where
  "binary_value s = foldl (\<lambda>acc ch. 2 * acc + (if ch = CHR ''1'' then 1 else 0)) 0 s"

text \<open>
  For the examples: a \<^verbatim>\<open>pixel_position\<close> that puts an X gate on each qubit whose
  character is 0, and the circuit that \<^verbatim>\<open>build_circuit\<close> yields with it for the example
  image.
\<close>

definition x_on_zeros :: "string \<Rightarrow> 'b QuantumCircuit \<Rightarrow> 'b QuantumCircuit" where
  "x_on_zeros pixel_pos_binary c =
     append_instructions
       (map (\<lambda>i. XGate (int i))
          (filter (\<lambda>i. pixel_pos_binary ! i = CHR ''0'') [0..<length pixel_pos_binary])) c"

definition example_final :: "unit QuantumCircuit" where
  "example_final =
     \<lparr>qc_num_qubits = 10,
      qc_data =
        [HGate 0, HGate 1, XGate 0, XGate 1, XGate 0,
         XGate 1, XGate 0, MCXGate [0, 1] 9, XGate 0,
         XGate 1, MCXGate [0, 1] 8, XGate 1, MCXGate [0, 1] 8,
         MCXGate [0, 1] 9]\<rparr>"

text \<open>
  Further examples: the NEQR object built with the maximum intensity 3 (two color
  qubits), a gate structure whose blocks take 15 parameters (complex) or 6 (real), and
  the MPS object of the dimensions (1, 3).
\<close>

definition narrow_neqr :: "unit NEQR" where
  "narrow_neqr =
     \<lparr>neqr_img_dims = (2, 2), pixel_vals = [0, 1, 2, 3], feature_dim = 2,
      max_color_intensity = 4, color_qubits = 2, neqr_circuit = QuantumCircuit 4\<rparr>"

definition general_block :: "parameter list \<Rightarrow> bool \<Rightarrow> parameter list \<times> parameter list" where
  "general_block p cs = (take (if cs then 15 else 6) p, drop (if cs then 15 else 6) p)"

definition three_qubit_mps :: "parameter list MPS" where
  "three_qubit_mps =
     \<lparr>img_dims = PyTuple [PyInt 1, PyInt 3], num_qubits = 3, circuit = QuantumCircuit 3\<rparr>"


section \<open>The MPS constructor and backbone\<close>

lemma upto_as_upt: "[0..n - 1] = map int [0..<nat n]"
proof (induction "nat n" arbitrary: n)
  case 0
  then show ?case by simp
next
  case (Suc k)
  then have n: "n = int k + 1" by linarith
  have "k = nat (int k)" by simp
  from Suc.hyps(1)[OF this] have ih: "[0..int k - 1] = map int [0..<k]" by simp
  have "[0..n - 1] = [0..int k - 1] @ [int k]"
    using n by (simp add: upto_rec2)
  then show ?case using ih n by (simp add: nat_add_distrib)
qed

lemma mps_backbone_loop_upt:
  "mps_backbone_loop (map int [k..<k + m]) gs cs (c, p) =
     (c\<lparr>qc_data := qc_data c @
          map (\<lambda>i. Composed (fst (gs (((\<lambda>q. snd (gs q cs)) ^^ i) p) cs)) [int (k + i), int (k + i) + 1]) [0..<m]\<rparr>,
      ((\<lambda>q. snd (gs q cs)) ^^ m) p)"
proof (induction m arbitrary: k c p)
  case 0
  then show ?case by simp
next
  case (Suc m)
  define step where "step = (\<lambda>q. snd (gs q cs))"
  have l: "[k..<k + Suc m] = k # [Suc k..<Suc k + m]"
    by (simp add: upt_conv_Cons)
  have r: "[0..<Suc m] = 0 # map Suc [0..<m]"
    by (simp add: upt_conv_Cons map_Suc_upt del: upt_Suc)
  have sw: "(step ^^ i) (step p) = step ((step ^^ i) p)" for i
    by (simp add: funpow_swap1)
  obtain b p' where g: "gs p cs = (b, p')" by (cases "gs p cs")
  then have p': "p' = step p" by (simp add: step_def)
  have "mps_backbone_loop (map int [k..<k + Suc m]) gs cs (c, p) =
        mps_backbone_loop (map int [Suc k..<Suc k + m]) gs cs
          (c\<lparr>qc_data := qc_data c @ [Composed b [int k, int k + 1]]\<rparr>, p')"
    unfolding l by (simp add: g compose_def append_instruction_def)
  also have "\<dots> = (c\<lparr>qc_data := qc_data c @ [Composed b [int k, int k + 1]] @
          map (\<lambda>i. Composed (fst (gs ((step ^^ i) p') cs)) [int (Suc k + i), int (Suc k + i) + 1]) [0..<m]\<rparr>,
      (step ^^ m) p')"
    unfolding Suc.IH step_def by simp
  also have "\<dots> = (c\<lparr>qc_data := qc_data c @
          map (\<lambda>i. Composed (fst (gs ((step ^^ i) p) cs)) [int (k + i), int (k + i) + 1]) [0..<Suc m]\<rparr>,
      (step ^^ Suc m) p)"
    unfolding r using g by (simp add: p' sw comp_def del: upt_Suc)
  finally show ?case unfolding step_def .
qed

lemma mps_backbone_locals_eq:
  "mps_backbone_locals gs pv cs self =
     ((circuit self)\<lparr>qc_data := qc_data (circuit self) @
          map (\<lambda>i. Composed (fst (gs (((\<lambda>q. snd (gs q cs)) ^^ i) pv) cs)) [int i, int i + 1])
            [0..<nat (num_qubits self - 1)]\<rparr>,
      ((\<lambda>q. snd (gs q cs)) ^^ nat (num_qubits self - 1)) pv)"
  unfolding mps_backbone_locals_def upto_as_upt [of "num_qubits self - 1"]
  using mps_backbone_loop_upt [of 0 "nat (num_qubits self - 1)" gs cs "circuit self" pv]
  by simp

lemma funpow_drop: "((drop k) ^^ m) xs = drop (k * m) xs"
  by (induction m arbitrary: xs) (simp_all add: funpow_swap1 add.commute)

lemma length_ParameterVector: "length (ParameterVector name len) = nat len"
  by (simp add: ParameterVector_def upto_as_upt)


lemma is_int_tuple_iff:
  "is_int_tuple dims \<longleftrightarrow> all_isinstance_int dims = Inr True \<and> isinstance_tuple dims"
  by (cases dims) (simp_all add: all_isinstance_int_def)

text \<open>
  C7: the MPS constructor raises a \<^verbatim>\<open>TypeError\<close> exactly when \<^verbatim>\<open>img_dims\<close> is not a
  tuple whose elements are all ints, a \<^verbatim>\<open>ValueError\<close> exactly when it is such a tuple
  and the product of its elements is not positive, and otherwise returns an object
  whose circuit has that product as its number of qubits and no instruction. An
  error is a value without an object, so nothing is created on the error paths.
\<close>

theorem MPS_init_cases:
  "((\<exists>msg. (MPS_init dims :: error + 'b MPS) = Inl (TypeError msg)) \<longleftrightarrow> \<not> is_int_tuple dims) \<and>
   ((\<exists>msg. (MPS_init dims :: error + 'b MPS) = Inl (ValueError msg)) \<longleftrightarrow>
      is_int_tuple dims \<and> prod_of dims \<le> 0) \<and>
   (is_int_tuple dims \<and> 0 < prod_of dims \<longrightarrow>
      (MPS_init dims :: error + 'b MPS) =
        Inr \<lparr>img_dims = dims, num_qubits = prod_of dims,
             circuit = \<lparr>qc_num_qubits = prod_of dims, qc_data = []\<rparr>\<rparr>)"
proof (cases "is_int_tuple dims")
  case True
  then show ?thesis
    by (simp add: is_int_tuple_iff MPS_init_def prod_of_def QuantumCircuit_def)
next
  case False
  then have "(MPS_init dims :: error + 'b MPS) = Inl (TypeError img_dims_type_msg)
      \<or> (MPS_init dims :: error + 'b MPS) = Inl (not_iterable dims)"
    by (cases dims) (auto simp: MPS_init_def all_isinstance_int_def split: sum.splits)
  with False show ?thesis
    by (auto simp: not_iterable_def)
qed

theorem MPS_init_cases_witness:
  "is_int_tuple (PyTuple [PyInt 2, PyInt 2]) \<and> 0 < prod_of (PyTuple [PyInt 2, PyInt 2]) \<and>
   (MPS_init (PyTuple [PyInt 2, PyInt 2]) :: error + unit MPS) =
     Inr \<lparr>img_dims = PyTuple [PyInt 2, PyInt 2], num_qubits = 4,
          circuit = \<lparr>qc_num_qubits = 4, qc_data = []\<rparr>\<rparr> \<and>
   \<not> is_int_tuple (PyList [PyInt 2, PyInt 2]) \<and>
   (\<exists>msg. (MPS_init (PyList [PyInt 2, PyInt 2]) :: error + unit MPS) = Inl (TypeError msg)) \<and>
   (\<exists>msg. (MPS_init (PyTuple [PyInt 0, PyInt 2]) :: error + unit MPS) = Inl (ValueError msg))"
  using MPS_init_cases [of "PyTuple [PyInt 2, PyInt 2]", where 'b = unit]
    MPS_init_cases [of "PyList [PyInt 2, PyInt 2]", where 'b = unit]
    MPS_init_cases [of "PyTuple [PyInt 0, PyInt 2]", where 'b = unit]
  by (simp add: prod_of_def math_prod_def)

lemma MPS_init_num_qubits:
  "MPS_init dims = Inr self \<Longrightarrow>
     1 \<le> num_qubits self \<and> num_qubits self = prod_of dims \<and>
     qc_num_qubits (circuit self) = num_qubits self \<and> qc_data (circuit self) = []"
  by (auto simp: MPS_init_def QuantumCircuit_def prod_of_def split: sum.splits if_splits)

text \<open>
  C3: on an MPS object with \<open>n = prod img_dims\<close> qubits (with any circuit \<open>c\<close> stored in
  it), \<^verbatim>\<open>mps_backbone\<close> appends \<open>n - 1\<close> blocks to the stored circuit; block \<open>i\<close> (from 0, in
  increasing order) is the one the gate structure returns for the parameters left by
  the blocks before it, it acts on the qubits \<open>i\<close> and \<open>i + 1\<close>, and the method returns
  the stored circuit.
\<close>

theorem mps_backbone_blocks:
  assumes "MPS_init dims = Inr self0"
  shows "(let n = prod_of dims;
              blocks = map (\<lambda>i. Composed (fst (gs (((\<lambda>q. snd (gs q cs)) ^^ i) pv) cs))
                              [int i, int i + 1])
                         [0..<nat (n - 1)];
              final = c\<lparr>qc_data := qc_data c @ blocks\<rparr>
          in int (length blocks) = n - 1 \<and>
             mps_backbone gs pv cs (self0\<lparr>circuit := c\<rparr>) = (final, self0\<lparr>circuit := final\<rparr>))"
  using MPS_init_num_qubits [OF assms]
  by (simp add: mps_backbone_def mps_backbone_locals_eq Let_def)

theorem mps_backbone_blocks_witness:
  "(MPS_init (PyTuple [PyInt 1, PyInt 3]) :: error + parameter list MPS) =
     Inr \<lparr>img_dims = PyTuple [PyInt 1, PyInt 3], num_qubits = 3, circuit = QuantumCircuit 3\<rparr> \<and>
   mps_backbone two_per_block (ParameterVector ''t'' 4) True
      \<lparr>img_dims = PyTuple [PyInt 1, PyInt 3], num_qubits = 3, circuit = QuantumCircuit 3\<rparr> =
     (\<lparr>qc_num_qubits = 3, qc_data =
         [Composed [(''t'', 0), (''t'', 1)] [0, 1], Composed [(''t'', 2), (''t'', 3)] [1, 2]]\<rparr>,
      \<lparr>img_dims = PyTuple [PyInt 1, PyInt 3], num_qubits = 3, circuit =
        \<lparr>qc_num_qubits = 3, qc_data =
         [Composed [(''t'', 0), (''t'', 1)] [0, 1], Composed [(''t'', 2), (''t'', 3)] [1, 2]]\<rparr>\<rparr>)"
proof -
  have init: "(MPS_init (PyTuple [PyInt 1, PyInt 3]) :: error + parameter list MPS) =
     Inr \<lparr>img_dims = PyTuple [PyInt 1, PyInt 3], num_qubits = 3, circuit = QuantumCircuit 3\<rparr>"
    by (simp add: MPS_init_def all_isinstance_int_def math_prod_def)
  show ?thesis
    using mps_backbone_blocks [OF init, where gs = two_per_block and cs = True
        and pv = "ParameterVector ''t'' 4" and c = "QuantumCircuit 3"] init
    by (simp add: Let_def prod_of_def math_prod_def two_per_block_def ParameterVector_def
        QuantumCircuit_def upto.simps upt_conv_Cons numeral_2_eq_2)
qed

lemma mps_params_lengths:
  assumes "1 \<le> num_qubits self"
  shows "int (length (mps_simple_params self)) = 2 * num_qubits self - 2"
    and "int (length (mps_general_params True self)) = 15 * num_qubits self - 2"
    and "int (length (mps_general_params False self)) = 6 * num_qubits self - 2"
  using assms
  by (simp_all add: mps_simple_params_def mps_general_params_def length_ParameterVector)

lemma mps_backbone_locals_leftover:
  assumes "\<And>p. snd (gs p cs) = drop k p"
  shows "snd (mps_backbone_locals gs pv cs self) = drop (k * nat (num_qubits self - 1)) pv"
proof -
  have "(\<lambda>q. snd (gs q cs)) = drop k" using assms by auto
  then show ?thesis by (simp add: mps_backbone_locals_eq funpow_drop)
qed

lemma mps_simple_consumes_all:
  assumes "1 \<le> num_qubits self" and "\<And>p. snd (sp p cs) = drop 2 p"
  shows "snd (mps_simple_locals sp cs self) = []"
  using assms
  by (simp add: mps_simple_locals_def mps_backbone_locals_leftover [where gs = sp and cs = cs and k = 2]
      mps_simple_params_def length_ParameterVector)

lemma mps_general_leaves_parameters:
  assumes "1 \<le> num_qubits self" and "\<And>p. snd (gp p cs) = drop (if cs then 15 else 6) p"
  shows "length (snd (mps_general_locals gp cs self)) = (if cs then 13 else 4)"
proof -
  have "snd (mps_general_locals gp cs self) =
      drop ((if cs then 15 else 6) * nat (num_qubits self - 1)) (mps_general_params cs self)"
    unfolding mps_general_locals_def
    using assms(2) by (rule mps_backbone_locals_leftover)
  moreover have "nat (15 * num_qubits self - 2) - 15 * nat (num_qubits self - 1) = 13"
    and "nat (6 * num_qubits self - 2) - 6 * nat (num_qubits self - 1) = 4"
    using assms(1) by linarith+
  ultimately show ?thesis
    by (simp add: mps_general_params_def length_ParameterVector)
qed

text \<open>
  C1: \<^verbatim>\<open>mps_general\<close> on the one-qubit MPS built from the dimensions (1, 1). The
  backbone lays out no block, whatever the general parameterization is, and the
  13 parameters allocated for the complex structure (4 for the real one) all
  remain: the vector is not consumed by the blocks.
\<close>

theorem mps_general_single_qubit_unconsumed:
  "(MPS_init (PyTuple [PyInt 1, PyInt 1]) :: error + 'b MPS) =
      Inr \<lparr>img_dims = PyTuple [PyInt 1, PyInt 1], num_qubits = 1, circuit = QuantumCircuit 1\<rparr> \<and>
   mps_general_locals gp True
      (\<lparr>img_dims = PyTuple [PyInt 1, PyInt 1], num_qubits = 1, circuit = QuantumCircuit 1\<rparr> :: 'b MPS) =
     (QuantumCircuit 1, ParameterVector ''theta'' 13) \<and>
   length (ParameterVector ''theta'' 13) = 13 \<and>
   mps_general_locals gp False
      (\<lparr>img_dims = PyTuple [PyInt 1, PyInt 1], num_qubits = 1, circuit = QuantumCircuit 1\<rparr> :: 'b MPS) =
     (QuantumCircuit 1, ParameterVector ''theta'' 4)"
  by (simp add: MPS_init_def all_isinstance_int_def math_prod_def mps_general_locals_def
      mps_general_params_def mps_backbone_locals_def length_ParameterVector)

theorem mps_general_single_qubit_unconsumed_witness:
  "mps_general_locals two_per_block True
      (\<lparr>img_dims = PyTuple [PyInt 1, PyInt 1], num_qubits = 1, circuit = QuantumCircuit 1\<rparr>
         :: parameter list MPS) =
     (QuantumCircuit 1, ParameterVector ''theta'' 13)"
  using mps_general_single_qubit_unconsumed [of two_per_block] by simp

text \<open>
  With a simple parameterization whose blocks take two parameters each, the vector
  that \<^verbatim>\<open>mps_simple\<close> allocates is used up by the blocks of the backbone.
\<close>

theorem mps_simple_exact:
  assumes "MPS_init dims = Inr self" and "\<And>p. snd (sp p cs) = drop 2 p"
  shows "snd (mps_simple_locals sp cs self) = []"
  using MPS_init_num_qubits [OF assms(1)] assms(2) by (simp add: mps_simple_consumes_all)

text \<open>
  With a general parameterization whose blocks take 15 parameters each (6 for the real
  structure), 13 (respectively 4) of the parameters that \<^verbatim>\<open>mps_general\<close> allocates are
  left over, whatever the number of qubits.
\<close>

theorem mps_general_surplus:
  assumes "MPS_init dims = Inr self" and "\<And>p. snd (gp p cs) = drop (if cs then 15 else 6) p"
  shows "length (snd (mps_general_locals gp cs self)) = (if cs then 13 else 4)"
  using MPS_init_num_qubits [OF assms(1)] assms(2) by (simp add: mps_general_leaves_parameters)

lemma three_qubit_mps_constructed:
  "MPS_init (PyTuple [PyInt 1, PyInt 3]) = Inr three_qubit_mps"
  by (simp add: MPS_init_def all_isinstance_int_def math_prod_def three_qubit_mps_def)

theorem mps_simple_exact_witness:
  "MPS_init (PyTuple [PyInt 1, PyInt 3]) = Inr three_qubit_mps \<and>
   snd (two_per_block [] True) = drop 2 [] \<and>
   snd (mps_simple_locals two_per_block True three_qubit_mps) = []"
  using mps_simple_exact [OF three_qubit_mps_constructed, of two_per_block True]
    three_qubit_mps_constructed
  by (simp add: two_per_block_def)

theorem mps_general_surplus_witness:
  "MPS_init (PyTuple [PyInt 1, PyInt 3]) = Inr three_qubit_mps \<and>
   snd (general_block [] True) = drop 15 [] \<and>
   length (snd (mps_general_locals general_block True three_qubit_mps)) = 13 \<and>
   length (snd (mps_general_locals general_block False three_qubit_mps)) = 4"
  using mps_general_surplus [OF three_qubit_mps_constructed, of general_block True]
    mps_general_surplus [OF three_qubit_mps_constructed, of general_block False]
    three_qubit_mps_constructed
  by (simp add: general_block_def)


section \<open>The quanvolutional layer\<close>

lemma example_layer_constructed:
  "QuanvolutionalLayer_init BaseLayer_init (PyTuple [PyInt 2, PyInt 2]) (PyTuple [PyInt 2, PyInt 2])
     (PyInt 1) (PyList [PyInt 0, PyInt 1, PyInt 2, PyInt 3]) (PyBool True) = Inr example_layer"
  by (simp add: QuanvolutionalLayer_init_def all_isinstance_int_def BaseLayer_init_def
      py_index_def py_min_def math_prod_def example_layer_def)

text \<open>
  C4: \<^verbatim>\<open>build_layer\<close> never returns: whatever the patch decomposition does, the call
  ends in an exception, and when the decomposition succeeds the exception is the
  \<^verbatim>\<open>NameError\<close> of the unbound name \<^verbatim>\<open>circuit_list\<close>.
\<close>

theorem build_layer_raises:
  "(\<exists>e. (build_layer psi self :: error + 'c list \<times> 'u list) = Inl e) \<and>
   (\<forall>sub_images. psi (filter_size self) (ql_pixel_vals self) = Inr sub_images \<longrightarrow>
      (build_layer psi self :: error + 'c list \<times> 'u list) =
         Inl (NameError ''name circuit_list is not defined''))"
  by (auto simp: build_layer_def split: sum.splits)

theorem build_layer_raises_witness:
  "whole_image (filter_size example_layer) (ql_pixel_vals example_layer) =
      Inr [PyList [PyInt 0, PyInt 1, PyInt 2, PyInt 3]] \<and>
   (build_layer whole_image example_layer :: error + unit list \<times> unit list) =
      Inl (NameError ''name circuit_list is not defined'')"
  using build_layer_raises [of whole_image example_layer, where 'c = unit and 'u = unit]
  by (simp add: whole_image_def example_layer_def)

text \<open>
  C9: \<^verbatim>\<open>build_sub_circuits\<close> returns the circuit that the generator produces for one
  qubit, depth 2 and measurement when \<^verbatim>\<open>self.random\<close> holds, and \<^verbatim>\<open>None\<close> (leaving the
  generator untouched) when it does not; the sub-image has no influence on the
  result.
\<close>

theorem build_sub_circuits_result:
  "(ql_random self \<longrightarrow>
      build_sub_circuits rc self sub_image g =
        (Some (fst (rc 1 2 3 True g)), snd (rc 1 2 3 True g))) \<and>
   (\<not> ql_random self \<longrightarrow> build_sub_circuits rc self sub_image g = (None, g)) \<and>
   build_sub_circuits rc self sub_image g = build_sub_circuits rc self other_image g"
  by (simp add: build_sub_circuits_def split: prod.splits)

theorem build_sub_circuits_result_witness:
  "ql_random example_layer \<and>
   build_sub_circuits described_circuit example_layer [PyInt 0] 7 = (Some (1, 2, True, 7), 8) \<and>
   \<not> ql_random (example_layer\<lparr>ql_random := False\<rparr>) \<and>
   build_sub_circuits described_circuit (example_layer\<lparr>ql_random := False\<rparr>) [PyInt 0] 7 = (None, 7)"
  using build_sub_circuits_result [where self = example_layer and rc = described_circuit
      and sub_image = "[PyInt 0]" and g = 7 and other_image = "[PyInt 1]"]
    build_sub_circuits_result [where self = "example_layer\<lparr>ql_random := False\<rparr>"
      and rc = described_circuit and sub_image = "[PyInt 0]" and g = 7 and other_image = "[PyInt 1]"]
  by (simp add: described_circuit_def example_layer_def)

text \<open>
  C10, as amended: when \<^verbatim>\<open>img_dims\<close> is a tuple of ints, the base constructor succeeds
  and \<^verbatim>\<open>filter_size\<close> is a non-empty tuple of ints whose first entry is at most
  \<^verbatim>\<open>min(img_dims)\<close>, then \<^verbatim>\<open>stride=None\<close> raises the \<^verbatim>\<open>TypeError\<close> about the stride; for
  an int stride the constructor raises a \<^verbatim>\<open>ValueError\<close> (the one about the stride)
  exactly when \<^verbatim>\<open>stride <= 0\<close> or \<^verbatim>\<open>stride > min(img_dims)\<close>; and otherwise, when
  \<^verbatim>\<open>random\<close> is a bool, it returns an object that stores the stride unchanged.
\<close>

theorem QuanvolutionalLayer_init_stride:
  assumes "is_int_tuple dims"
    and "BL (prod_of dims) = Inr b"
    and "is_int_tuple fsize"
    and "tuple_items fsize = f0 # frest"
    and "py_min (map int_value (tuple_items dims)) = Inr min_dim"
    and "int_value f0 \<le> min_dim"
  shows "QuanvolutionalLayer_init BL dims fsize PyNone pixels rnd = Inl (TypeError stride_type_msg) \<and>
    (isinstance_int strd \<longrightarrow>
       ((\<exists>msg. QuanvolutionalLayer_init BL dims fsize strd pixels rnd = Inl (ValueError msg)) \<longleftrightarrow>
          int_value strd \<le> 0 \<or> int_value strd > min_dim) \<and>
       (QuanvolutionalLayer_init BL dims fsize strd pixels rnd = Inl (ValueError stride_value_msg) \<longleftrightarrow>
          int_value strd \<le> 0 \<or> int_value strd > min_dim)) \<and>
    (isinstance_int strd \<and> \<not> (int_value strd \<le> 0 \<or> int_value strd > min_dim) \<and> isinstance_bool rnd \<longrightarrow>
       (\<exists>layer. QuanvolutionalLayer_init BL dims fsize strd pixels rnd = Inr layer \<and> stride layer = strd))"
proof -
  have d: "all_isinstance_int dims = Inr True" "isinstance_tuple dims"
    using assms(1) by (simp_all add: is_int_tuple_iff)
  have f: "isinstance_tuple fsize" "list_all isinstance_int (tuple_items fsize)"
    using assms(3) by (cases fsize; simp)+
  have i: "py_index ''tuple index out of range'' (tuple_items fsize) 0 = Inr f0"
    by (simp add: py_index_def assms(4))
  have b: "BL (math_prod (map int_value (tuple_items dims))) = Inr b"
    using assms(2) by (simp add: prod_of_def)
  show ?thesis
    using assms(6)
    by (simp add: QuanvolutionalLayer_init_def d f i b assms(5))
qed

theorem QuanvolutionalLayer_init_stride_witness:
  "is_int_tuple (PyTuple [PyInt 2, PyInt 2]) \<and>
   BaseLayer_init (prod_of (PyTuple [PyInt 2, PyInt 2])) = Inr 4 \<and>
   py_min (map int_value (tuple_items (PyTuple [PyInt 2, PyInt 2]))) = Inr 2 \<and>
   QuanvolutionalLayer_init BaseLayer_init (PyTuple [PyInt 2, PyInt 2]) (PyTuple [PyInt 2, PyInt 2])
     PyNone (PyList []) (PyBool True) = Inl (TypeError stride_type_msg) \<and>
   QuanvolutionalLayer_init BaseLayer_init (PyTuple [PyInt 2, PyInt 2]) (PyTuple [PyInt 2, PyInt 2])
     (PyInt 3) (PyList []) (PyBool True) = Inl (ValueError stride_value_msg) \<and>
   (\<exists>layer. QuanvolutionalLayer_init BaseLayer_init (PyTuple [PyInt 2, PyInt 2]) (PyTuple [PyInt 2, PyInt 2])
     (PyInt 2) (PyList []) (PyBool True) = Inr layer \<and> stride layer = PyInt 2)"
  using QuanvolutionalLayer_init_stride [where BL = BaseLayer_init
      and dims = "PyTuple [PyInt 2, PyInt 2]" and b = 4 and fsize = "PyTuple [PyInt 2, PyInt 2]"
      and ?f0.0 = "PyInt 2" and frest = "[PyInt 2]" and min_dim = 2 and pixels = "PyList []"
      and rnd = "PyBool True" and strd = "PyInt 3"]
    QuanvolutionalLayer_init_stride [where BL = BaseLayer_init
      and dims = "PyTuple [PyInt 2, PyInt 2]" and b = 4 and fsize = "PyTuple [PyInt 2, PyInt 2]"
      and ?f0.0 = "PyInt 2" and frest = "[PyInt 2]" and min_dim = 2 and pixels = "PyList []"
      and rnd = "PyBool True" and strd = "PyInt 2"]
  by (simp add: BaseLayer_init_def prod_of_def math_prod_def py_min_def)

text \<open>
  The claim without the conditions on the other arguments fails: with a filter larger
  than the image the constructor raises a \<^verbatim>\<open>ValueError\<close> although the stride 1 lies
  between 1 and \<^verbatim>\<open>min(img_dims) = 2\<close>.
\<close>

theorem QuanvolutionalLayer_init_stride_counterexample:
  "isinstance_int (PyInt 1) \<and>
   \<not> (int_value (PyInt 1) \<le> 0 \<or> int_value (PyInt 1) > 2) \<and>
   py_min (map int_value (tuple_items (PyTuple [PyInt 2, PyInt 2]))) = Inr 2 \<and>
   QuanvolutionalLayer_init BaseLayer_init (PyTuple [PyInt 2, PyInt 2]) (PyTuple [PyInt 3, PyInt 3])
     (PyInt 1) (PyList []) (PyBool True) = Inl (ValueError filter_value_msg)"
  by (simp add: QuanvolutionalLayer_init_def all_isinstance_int_def BaseLayer_init_def
      py_index_def py_min_def math_prod_def)


section \<open>The NEQR constructor\<close>

lemma ceil_sqrt_from_least:
  "k = 0 \<or> (k - 1) * (k - 1) < n \<Longrightarrow>
   n \<le> ceil_sqrt_from k n * ceil_sqrt_from k n \<and>
   (ceil_sqrt_from k n = 0 \<or> (ceil_sqrt_from k n - 1) * (ceil_sqrt_from k n - 1) < n)"
proof (induction k n rule: ceil_sqrt_from.induct)
  case (1 k n)
  show ?case
  proof (cases "n \<le> k * k")
    case True
    then show ?thesis using "1.prems" by (simp add: ceil_sqrt_from.simps [of k n])
  next
    case False
    then have "Suc k = 0 \<or> (Suc k - 1) * (Suc k - 1) < n" by simp
    from "1.IH" [OF False this] show ?thesis
      using False by (simp add: ceil_sqrt_from.simps [of k n])
  qed
qed

lemma ceil_log2_from_least:
  "k = 0 \<or> 2 ^ (k - 1) < x \<Longrightarrow>
   x \<le> 2 ^ ceil_log2_from k x \<and> (ceil_log2_from k x = 0 \<or> 2 ^ (ceil_log2_from k x - 1) < x)"
proof (induction k x rule: ceil_log2_from.induct)
  case (1 k x)
  show ?case
  proof (cases "x \<le> 2 ^ k")
    case True
    then show ?thesis using "1.prems" by (simp add: ceil_log2_from.simps [of k x])
  next
    case False
    then have "Suc k = 0 \<or> 2 ^ (Suc k - 1) < x" by simp
    from "1.IH" [OF False this] show ?thesis
      using False by (simp add: ceil_log2_from.simps [of k x])
  qed
qed

lemma ceiling_sqrt_eq: "\<lceil>sqrt (real n)\<rceil> = int (ceil_sqrt_from 0 n)"
proof -
  define r where "r = ceil_sqrt_from 0 n"
  have up: "n \<le> r * r" and low: "r = 0 \<or> (r - 1) * (r - 1) < n"
    using ceil_sqrt_from_least [of 0 n] by (simp_all add: r_def)
  have "sqrt (real n) \<le> real r"
  proof (rule real_le_lsqrt)
    show "0 \<le> real r" by simp
    have "real n \<le> real (r * r)" using up by (simp only: of_nat_le_iff)
    then show "real n \<le> (real r)\<^sup>2" by (simp add: power2_eq_square)
  qed
  moreover have "real r - 1 < sqrt (real n)"
  proof (cases "r = 0")
    case True
    have "(0::real) \<le> sqrt (real n)" by simp
    then have "- 1 < sqrt (real n)" by linarith
    then show ?thesis using True by simp
  next
    case False
    with low have "(r - 1) * (r - 1) < n" by simp
    then have "real ((r - 1) * (r - 1)) < real n" by (simp only: of_nat_less_iff)
    then have "(real (r - 1))\<^sup>2 < real n" by (simp add: power2_eq_square)
    then have "real (r - 1) < sqrt (real n)" by (rule real_less_rsqrt)
    then show ?thesis using False by (simp add: of_nat_diff)
  qed
  ultimately have "\<lceil>sqrt (real n)\<rceil> = int r"
    by (intro ceiling_unique) simp_all
  then show ?thesis by (simp add: r_def)
qed

lemma ceiling_log2_eq:
  assumes "0 < x"
  shows "\<lceil>log 2 (real x)\<rceil> = int (ceil_log2_from 0 x)"
proof -
  define r where "r = ceil_log2_from 0 x"
  have up: "x \<le> 2 ^ r" and low: "r = 0 \<or> 2 ^ (r - 1) < x"
    using ceil_log2_from_least [of 0 x] by (simp_all add: r_def)
  have "log 2 (real x) \<le> real r"
    using up assms by (rule log2_of_power_le)
  moreover have "real r - 1 < log 2 (real x)"
  proof (cases "r = 0")
    case True
    have "(0::real) \<le> log 2 (real x)" using assms by simp
    then have "- 1 < log 2 (real x)" by linarith
    then show ?thesis using True by simp
  next
    case False
    with low have "2 ^ (r - 1) < x" by simp
    then have "real (r - 1) < log 2 (real x)" by (rule less_log2_of_power)
    then show ?thesis using False by (simp add: of_nat_diff)
  qed
  ultimately have "\<lceil>log 2 (real x)\<rceil> = int r"
    by (intro ceiling_unique) simp_all
  then show ?thesis by (simp add: r_def)
qed

lemma math_prod_pair: "math_prod [a, b] = a * b"
  by (simp add: math_prod_def)

lemma ImageEmbedding_init_Inr:
  "ImageEmbedding_init dims pixels = Inr r \<longleftrightarrow>
     r = (dims, pixels) \<and> int (length pixels) = fst dims * snd dims \<and>
     list_all (\<lambda>v. 0 \<le> v \<and> v \<le> 255) pixels"
  by (auto simp: ImageEmbedding_init_def math_prod_pair)

lemma ImageEmbedding_init_Inl:
  "ImageEmbedding_init dims pixels = Inl e \<Longrightarrow> \<exists>msg. e = ValueError msg"
  by (auto simp: ImageEmbedding_init_def split: if_splits)

lemma NEQR_init_Inr:
  "NEQR_init dims pixels m = Inr self \<longleftrightarrow>
     int (length pixels) = fst dims * snd dims \<and> list_all (\<lambda>v. 0 \<le> v \<and> v \<le> 255) pixels \<and>
     fst dims = snd dims \<and> 0 \<le> m \<and> m \<le> 255 \<and>
     self = \<lparr>neqr_img_dims = dims, pixel_vals = pixels,
             feature_dim = int (ceil_sqrt_from 0 (nat (fst dims * snd dims))),
             max_color_intensity = m + 1,
             color_qubits = int (ceil_log2_from 0 (nat (m + 1))),
             neqr_circuit = QuantumCircuit (int (ceil_sqrt_from 0 (nat (fst dims * snd dims)))
                + int (ceil_log2_from 0 (nat (m + 1))))\<rparr>"
proof (cases "ImageEmbedding_init dims pixels")
  case (Inl e)
  then show ?thesis
    using ImageEmbedding_init_Inr [of dims pixels "(dims, pixels)"]
    by (auto simp: NEQR_init_def)
next
  case (Inr r)
  then have r: "r = (dims, pixels)" and len: "int (length pixels) = fst dims * snd dims"
    and rng: "list_all (\<lambda>v. 0 \<le> v \<and> v \<le> 255) pixels"
    by (simp_all add: ImageEmbedding_init_Inr)
  have sq: "fst dims = snd dims \<Longrightarrow> \<not> fst dims * snd dims < 0" by simp
  show ?thesis
    using Inr r len rng sq
    by (auto simp: NEQR_init_def validate_square_images_def int_ceil_sqrt_def int_ceil_log2_def
        math_prod_pair)
qed

text \<open>
  C5: an NEQR object built from \<^verbatim>\<open>img_dims\<close> and \<^verbatim>\<open>max_color_intensity = m\<close> has \<open>m\<close> in
  [0, 255], and its circuit has \<open>\<lceil>sqrt (prod img_dims)\<rceil> + \<lceil>log\<^sub>2 (m + 1)\<rceil>\<close> qubits: the
  first summand is \<^verbatim>\<open>feature_dim\<close>, the second \<^verbatim>\<open>color_qubits\<close>.
\<close>

theorem NEQR_init_qubits:
  assumes "NEQR_init dims pixels m = Inr self"
  shows "0 \<le> m \<and> m \<le> 255 \<and>
     feature_dim self = \<lceil>sqrt (real_of_int (math_prod [fst dims, snd dims]))\<rceil> \<and>
     color_qubits self = \<lceil>log 2 (real_of_int (m + 1))\<rceil> \<and>
     qc_num_qubits (neqr_circuit self) =
       \<lceil>sqrt (real_of_int (math_prod [fst dims, snd dims]))\<rceil> + \<lceil>log 2 (real_of_int (m + 1))\<rceil> \<and>
     qc_num_qubits (neqr_circuit self) = feature_dim self + color_qubits self"
proof -
  from assms have m: "0 \<le> m" "m \<le> 255" and sq: "fst dims = snd dims"
    and fd: "feature_dim self = int (ceil_sqrt_from 0 (nat (fst dims * snd dims)))"
    and cq: "color_qubits self = int (ceil_log2_from 0 (nat (m + 1)))"
    and nq: "qc_num_qubits (neqr_circuit self) =
       int (ceil_sqrt_from 0 (nat (fst dims * snd dims))) + int (ceil_log2_from 0 (nat (m + 1)))"
    by (simp_all add: NEQR_init_Inr QuantumCircuit_def)
  have "0 \<le> fst dims * snd dims" using sq by simp
  then have a: "real_of_int (fst dims * snd dims) = real (nat (fst dims * snd dims))" by simp
  have b: "real_of_int (m + 1) = real (nat (m + 1))" using m by simp
  have "0 < nat (m + 1)" using m by simp
  then have l: "\<lceil>log 2 (real (nat (m + 1)))\<rceil> = int (ceil_log2_from 0 (nat (m + 1)))"
    by (rule ceiling_log2_eq)
  show ?thesis
    unfolding math_prod_pair a b l ceiling_sqrt_eq using m fd cq nq by simp
qed


lemma ceil_sqrt_4: "ceil_sqrt_from 0 4 = 2"
  by code_simp

lemma ceil_log2_256: "ceil_log2_from 0 256 = 8"
  by code_simp

lemma example_neqr_constructed: "NEQR_init (2, 2) [0, 1, 2, 3] 255 = Inr example_neqr"
  by (simp add: NEQR_init_Inr example_neqr_def ceil_sqrt_4 ceil_log2_256)

theorem NEQR_init_qubits_witness:
  "NEQR_init (2, 2) [0, 1, 2, 3] 255 = Inr example_neqr \<and>
   qc_num_qubits (neqr_circuit example_neqr) =
     \<lceil>sqrt (real_of_int (math_prod [fst (2, 2), snd (2, 2)]))\<rceil> + \<lceil>log 2 (real_of_int (255 + 1))\<rceil> \<and>
   qc_num_qubits (neqr_circuit example_neqr) = 10"
  using NEQR_init_qubits [OF example_neqr_constructed] example_neqr_constructed
  by (simp add: example_neqr_def QuantumCircuit_def)

text \<open>
  C6, as amended: dimensions that differ make the constructor raise a \<^verbatim>\<open>ValueError\<close>
  (an error value carries no object, so no circuit exists then), the one about square
  images when the base constructor accepts the arguments; for square dimensions
  accepted by the base constructor, a maximum intensity below 0 or above 255 raises
  the \<^verbatim>\<open>ValueError\<close> with the message about the maximum color intensity; for square
  dimensions and an intensity in [0, 255] neither of the two errors is raised, and
  the constructor succeeds when the base constructor does.
\<close>

theorem NEQR_init_errors:
  "(fst dims \<noteq> snd dims \<longrightarrow>
      (\<exists>msg. (NEQR_init dims pixels m :: error + 'b NEQR) = Inl (ValueError msg))) \<and>
   (ImageEmbedding_init dims pixels = Inr (dims, pixels) \<and> fst dims \<noteq> snd dims \<longrightarrow>
      (NEQR_init dims pixels m :: error + 'b NEQR) = Inl (ValueError square_images_msg)) \<and>
   (ImageEmbedding_init dims pixels = Inr (dims, pixels) \<and> fst dims = snd dims \<and> (m < 0 \<or> m > 255) \<longrightarrow>
      (NEQR_init dims pixels m :: error + 'b NEQR) = Inl (ValueError max_color_msg)) \<and>
   (fst dims = snd dims \<and> 0 \<le> m \<and> m \<le> 255 \<longrightarrow>
      (NEQR_init dims pixels m :: error + 'b NEQR) \<noteq> Inl (ValueError square_images_msg) \<and>
      (NEQR_init dims pixels m :: error + 'b NEQR) \<noteq> Inl (ValueError max_color_msg)) \<and>
   (ImageEmbedding_init dims pixels = Inr (dims, pixels) \<and> fst dims = snd dims \<and> 0 \<le> m \<and> m \<le> 255 \<longrightarrow>
      (\<exists>self. (NEQR_init dims pixels m :: error + 'b NEQR) = Inr self))"
proof (cases "ImageEmbedding_init dims pixels")
  case (Inl e)
  then obtain msg where e: "e = ValueError msg" using ImageEmbedding_init_Inl by blast
  have "e \<noteq> ValueError square_images_msg" "e \<noteq> ValueError max_color_msg"
    using Inl by (auto simp: ImageEmbedding_init_def pixel_len_msg_def pixel_range_msg_def
        square_images_msg_def max_color_msg_def split: if_splits)
  then show ?thesis using Inl e by (simp add: NEQR_init_def)
next
  case (Inr r)
  then have r: "r = (dims, pixels)" by (simp add: ImageEmbedding_init_Inr)
  have sq: "fst dims = snd dims \<Longrightarrow> \<not> fst dims * snd dims < 0" by simp
  show ?thesis
    using Inr r sq
    by (auto simp: NEQR_init_def validate_square_images_def int_ceil_sqrt_def int_ceil_log2_def
        math_prod_pair square_images_msg_def max_color_msg_def)
qed

theorem NEQR_init_errors_witness:
  "ImageEmbedding_init (2, 3) [0, 1, 2, 3, 4, 5] = Inr ((2, 3), [0, 1, 2, 3, 4, 5]) \<and>
   (NEQR_init (2, 3) [0, 1, 2, 3, 4, 5] 255 :: error + unit NEQR) = Inl (ValueError square_images_msg) \<and>
   ImageEmbedding_init (2, 2) [0, 1, 2, 3] = Inr ((2, 2), [0, 1, 2, 3]) \<and>
   (NEQR_init (2, 2) [0, 1, 2, 3] 256 :: error + unit NEQR) = Inl (ValueError max_color_msg) \<and>
   (\<exists>self. (NEQR_init (2, 2) [0, 1, 2, 3] 255 :: error + unit NEQR) = Inr self)"
  using NEQR_init_errors [of "(2, 3)" "[0, 1, 2, 3, 4, 5]" 255, where 'b = unit]
    NEQR_init_errors [of "(2, 2)" "[0, 1, 2, 3]" 256, where 'b = unit]
    NEQR_init_errors [of "(2, 2)" "[0, 1, 2, 3]" 255, where 'b = unit]
  by (simp add: ImageEmbedding_init_def math_prod_pair)

text \<open>
  The second part of the claim without the condition on the dimensions fails: for the
  dimensions (2, 3) and the intensity 300 the error raised is the one about square
  images, not the one about the intensity.
\<close>

theorem NEQR_init_errors_counterexample:
  "(300::int) > 255 \<and>
   (NEQR_init (2, 3) [0, 1, 2, 3, 4, 5] 300 :: error + unit NEQR) = Inl (ValueError square_images_msg) \<and>
   (NEQR_init (2, 3) [0, 1, 2, 3, 4, 5] 300 :: error + unit NEQR) \<noteq> Inl (ValueError max_color_msg)"
  by (simp add: NEQR_init_def ImageEmbedding_init_def math_prod_pair validate_square_images_def
      square_images_msg_def max_color_msg_def)


section \<open>The NEQR circuit\<close>

lemma not_bit_small:
  assumes "n < 2" and "0 < j"
  shows "\<not> bit (n::nat) j"
proof -
  have "(2::nat) ^ 1 \<le> 2 ^ j"
    using assms(2) by (intro power_increasing) simp_all
  then have "n < 2 ^ j" using assms(1) by simp
  then show ?thesis by (simp add: bit_iff_odd)
qed

lemma padded_bin_digits:
  "1 \<le> k \<Longrightarrow> n < 2 ^ k \<Longrightarrow>
   replicate (k - length (bin_digits n)) (CHR ''0'') @ bin_digits n =
     map (\<lambda>i. if bit n (k - Suc i) then CHR ''1'' else CHR ''0'') [0..<k]"
proof (induction k arbitrary: n)
  case 0
  then show ?case by simp
next
  case (Suc k)
  show ?case
  proof (cases "n < 2")
    case True
    have z: "map (\<lambda>i. if bit n (k - i) then CHR ''1'' else CHR ''0'') [0..<k] =
        replicate k (CHR ''0'')"
    proof -
      have "\<And>i. i \<in> set [0..<k] \<Longrightarrow>
          (if bit n (k - i) then CHR ''1'' else CHR ''0'') = CHR ''0''"
        using True by (simp add: not_bit_small)
      then have "map (\<lambda>i. if bit n (k - i) then CHR ''1'' else CHR ''0'') [0..<k] =
          map (\<lambda>i. CHR ''0'') [0..<k]"
        by (intro map_cong) simp_all
      then show ?thesis by (simp add: map_replicate_trivial)
    qed
    have d: "digit_char n = (if bit n 0 then CHR ''1'' else CHR ''0'')"
      using True by (cases "n = 0") (auto simp: digit_char_def bit_0)
    show ?thesis
      using True by (simp add: bin_digits.simps [of n] z d)
  next
    case False
    then have k: "1 \<le> k" using Suc.prems(2) by (cases k) simp_all
    have half: "n div 2 < 2 ^ k" using Suc.prems(2) by simp
    have ih: "replicate (k - length (bin_digits (n div 2))) (CHR ''0'') @ bin_digits (n div 2) =
        map (\<lambda>i. if bit (n div 2) (k - Suc i) then CHR ''1'' else CHR ''0'') [0..<k]"
      by (rule Suc.IH [OF k half])
    have m: "map (\<lambda>i. if bit n (k - i) then CHR ''1'' else CHR ''0'') [0..<k] =
        map (\<lambda>i. if bit (n div 2) (k - Suc i) then CHR ''1'' else CHR ''0'') [0..<k]"
    proof (intro map_cong refl)
      fix i assume "i \<in> set [0..<k]"
      then have "k - i = Suc (k - Suc i)" by simp
      then show "(if bit n (k - i) then CHR ''1'' else CHR ''0'') =
          (if bit (n div 2) (k - Suc i) then CHR ''1'' else CHR ''0'')"
        by (simp only: bit_Suc)
    qed
    have d: "digit_char (n mod 2) = (if bit n 0 then CHR ''1'' else CHR ''0'')"
      by (auto simp: digit_char_def bit_0 odd_iff_mod_2_eq_one)
    have "replicate (Suc k - length (bin_digits n)) (CHR ''0'') @ bin_digits n =
        (replicate (k - length (bin_digits (n div 2))) (CHR ''0'') @ bin_digits (n div 2)) @
          [digit_char (n mod 2)]"
      using False by (simp add: bin_digits.simps [of n])
    then show ?thesis
      by (simp add: ih m d)
  qed
qed

lemma format_bin_8:
  assumes "0 \<le> v" "v \<le> 255"
  shows "format_bin 8 v = map (\<lambda>i. if bit v (7 - i) then CHR ''1'' else CHR ''0'') [0..<8]"
proof -
  have "nat v < 2 ^ 8" using assms by simp
  then have "replicate (8 - length (bin_digits (nat v))) (CHR ''0'') @ bin_digits (nat v) =
      map (\<lambda>i. if bit (nat v) (8 - Suc i) then CHR ''1'' else CHR ''0'') [0..<8]"
    by (intro padded_bin_digits) simp_all
  moreover have "bit (nat v) j = bit v j" for j
    using assms by (simp add: bit_nat_iff)
  ultimately show ?thesis
    using assms by (simp add: format_bin_def Let_def)
qed


lemma check_qubits_ok:
  "(\<And>q. q \<in> set qubits \<Longrightarrow> qubit_in_range (qc_num_qubits c) q) \<Longrightarrow> check_qubits qubits c = Inr ()"
  by (simp add: check_qubits_def filter_empty_conv [THEN iffD2])

lemma mct_ok:
  assumes "\<And>q. q \<in> set cq \<Longrightarrow> qubit_in_range (qc_num_qubits c) q"
    and "qubit_in_range (qc_num_qubits c) t"
  shows "mct cq t c = Inr (append_instruction (MCXGate cq t) c)"
proof -
  have "check_qubits (cq @ [t]) c = Inr ()"
    using assms by (intro check_qubits_ok) auto
  then show ?thesis by (simp add: mct_def)
qed

lemma mct_target_outside:
  assumes "\<And>q. q \<in> set cq \<Longrightarrow> qubit_in_range (qc_num_qubits c) q"
    and "\<not> qubit_in_range (qc_num_qubits c) t"
  shows "mct cq t c = Inl (CircuitError t (qc_num_qubits c))"
proof -
  have "filter (\<lambda>q. \<not> qubit_in_range (qc_num_qubits c) q) cq = []"
    using assms(1) by (simp add: filter_empty_conv)
  then show ?thesis
    using assms(2) by (simp add: mct_def check_qubits_def)
qed

lemma pixel_value_loop_enumerate:
  assumes "\<And>q. q \<in> set cq \<Longrightarrow> qubit_in_range (qc_num_qubits c) q"
    and "\<And>i. i < length s \<Longrightarrow> s ! i = CHR ''1'' \<Longrightarrow> qubit_in_range (qc_num_qubits c) (fd + int (k + i))"
  shows "pixel_value_loop (enumerate k s) cq fd c =
     Inr (append_instructions
       (map (\<lambda>i. MCXGate cq (fd + int i)) (filter (\<lambda>i. s ! (i - k) = CHR ''1'') [k..<k + length s])) c)"
  using assms
proof (induction s arbitrary: k c)
  case Nil
  then show ?case by (simp add: append_instructions_def)
next
  case (Cons x xs)
  have u: "[k..<k + length (x # xs)] = k # [Suc k..<Suc k + length xs]"
    by (subst upt_rec) simp
  have f: "filter (\<lambda>i. (y # xs) ! (i - k) = CHR ''1'') [Suc k..<Suc (k + length xs)] =
      filter (\<lambda>i. xs ! (i - Suc k) = CHR ''1'') [Suc k..<Suc (k + length xs)]" for y
  proof (intro filter_cong refl)
    fix i assume "i \<in> set [Suc k..<Suc (k + length xs)]"
    then have "i - k = Suc (i - Suc k)" by auto
    then show "((y # xs) ! (i - k) = CHR ''1'') = (xs ! (i - Suc k) = CHR ''1'')" by simp
  qed
  have rest: "pixel_value_loop (enumerate (Suc k) xs) cq fd c' =
      Inr (append_instructions
        (map (\<lambda>i. MCXGate cq (fd + int i))
           (filter (\<lambda>i. xs ! (i - Suc k) = CHR ''1'') [Suc k..<Suc k + length xs])) c')"
    if w: "qc_num_qubits c' = qc_num_qubits c" for c' :: "'a QuantumCircuit"
  proof (rule Cons.IH)
    fix q assume "q \<in> set cq"
    then show "qubit_in_range (qc_num_qubits c') q" using Cons.prems(1) w by simp
  next
    fix i assume "i < length xs" "xs ! i = CHR ''1''"
    then show "qubit_in_range (qc_num_qubits c') (fd + int (Suc k + i))"
      using Cons.prems(2) [of "Suc i"] w by simp
  qed
  show ?case
  proof (cases "x = CHR ''1''")
    case True
    have "qubit_in_range (qc_num_qubits c) (fd + int k)"
      using Cons.prems(2) [of 0] True by simp
    then have m: "mct cq (fd + int k) c = Inr (append_instruction (MCXGate cq (fd + int k)) c)"
      using Cons.prems(1) by (intro mct_ok) simp_all
    show ?thesis
      unfolding u
      using True rest [of "append_instruction (MCXGate cq (fd + int k)) c"]
      by (simp add: m f append_instructions_def append_instruction_def del: upt_Suc)
  next
    case False
    show ?thesis
      unfolding u
      using False rest [of c]
      by (simp add: f append_instructions_def del: upt_Suc)
  qed
qed

lemma pixel_value_loop_raises:
  assumes "\<And>q. q \<in> set cq \<Longrightarrow> qubit_in_range (qc_num_qubits c) q"
    and "i < length s" and "s ! i = CHR ''1''"
    and "\<not> qubit_in_range (qc_num_qubits c) (fd + int (k + i))"
  shows "\<exists>q. pixel_value_loop (enumerate k s) cq fd c = Inl (CircuitError q (qc_num_qubits c))"
  using assms
proof (induction s arbitrary: k c i)
  case Nil
  then show ?case by simp
next
  case (Cons x xs)
  have later: "\<exists>q. pixel_value_loop (enumerate (Suc k) xs) cq fd c' = Inl (CircuitError q (qc_num_qubits c))"
    if w: "qc_num_qubits c' = qc_num_qubits c" and i: "i \<noteq> 0" for c' :: "'a QuantumCircuit"
  proof -
    from i obtain j where j: "i = Suc j" by (cases i) simp_all
    have "\<exists>q. pixel_value_loop (enumerate (Suc k) xs) cq fd c' = Inl (CircuitError q (qc_num_qubits c'))"
    proof (rule Cons.IH [of c' j "Suc k"])
      fix q assume "q \<in> set cq"
      then show "qubit_in_range (qc_num_qubits c') q" using Cons.prems(1) w by simp
    next
      show "j < length xs" using Cons.prems(2) j by simp
      show "xs ! j = CHR ''1''" using Cons.prems(3) j by simp
      show "\<not> qubit_in_range (qc_num_qubits c') (fd + int (Suc k + j))"
        using Cons.prems(4) j w by simp
    qed
    then show ?thesis using w by simp
  qed
  show ?case
  proof (cases "x = CHR ''1''")
    case True
    show ?thesis
    proof (cases "qubit_in_range (qc_num_qubits c) (fd + int k)")
      case inside: True
      then have m: "mct cq (fd + int k) c = Inr (append_instruction (MCXGate cq (fd + int k)) c)"
        using Cons.prems(1) by (intro mct_ok) simp_all
      have "i \<noteq> 0" using inside Cons.prems(4) by (cases i) auto
      from later [OF _ this, of "append_instruction (MCXGate cq (fd + int k)) c"]
      show ?thesis using True by (simp add: m append_instruction_def)
    next
      case False
      then have "mct cq (fd + int k) c = Inl (CircuitError (fd + int k) (qc_num_qubits c))"
        using Cons.prems(1) by (intro mct_target_outside) simp_all
      then show ?thesis using True by simp
    qed
  next
    case False
    then have "i \<noteq> 0" using Cons.prems(3) by (cases i) auto
    from later [OF refl this] show ?thesis using False by simp
  qed
qed


lemma pixel_value_gates:
  assumes "0 \<le> p" and "p < int (length (pixel_vals s))"
    and "0 \<le> pixel_vals s ! nat p" and "pixel_vals s ! nat p \<le> 255"
    and "0 \<le> feature_dim s" and "feature_dim s \<le> qc_num_qubits (neqr_circuit s)"
    and "\<And>i. i < 8 \<Longrightarrow> bit (pixel_vals s ! nat p) (7 - i) \<Longrightarrow>
           feature_dim s + int i < qc_num_qubits (neqr_circuit s)"
  shows "pixel_value s p =
     Inr (s\<lparr>neqr_circuit :=
            append_instructions (color_gates (feature_dim s) (pixel_vals s ! nat p)) (neqr_circuit s)\<rparr>)"
proof -
  let ?v = "pixel_vals s ! nat p"
  let ?bits = "map (\<lambda>i. if bit ?v (7 - i) then CHR ''1'' else CHR ''0'') [0..<8]"
  have idx: "py_index ''list index out of range'' (pixel_vals s) p = Inr ?v"
    using assms(1,2) by (simp add: py_index_def)
  have fmt: "format_bin 8 ?v = ?bits"
    using assms(3,4) by (rule format_bin_8)
  have sel: "filter (\<lambda>i. ?bits ! (i - 0) = CHR ''1'') [0..<0 + length ?bits] =
      filter (\<lambda>i. bit ?v (7 - i)) [0..<8]"
    by (intro filter_cong) (simp_all del: upt_Suc)
  have "pixel_value_loop (enumerate 0 ?bits) [0..feature_dim s - 1] (feature_dim s) (neqr_circuit s) =
      Inr (append_instructions
        (map (\<lambda>i. MCXGate [0..feature_dim s - 1] (feature_dim s + int i))
           (filter (\<lambda>i. ?bits ! (i - 0) = CHR ''1'') [0..<0 + length ?bits])) (neqr_circuit s))"
  proof (rule pixel_value_loop_enumerate)
    fix q assume "q \<in> set [0..feature_dim s - 1]"
    then show "qubit_in_range (qc_num_qubits (neqr_circuit s)) q"
      using assms(6) by (simp add: qubit_in_range_def)
  next
    fix i assume i: "i < length ?bits" and one: "?bits ! i = CHR ''1''"
    from i have i8: "i < 8" by simp
    with one have "bit ?v (7 - i)" by (simp del: upt_Suc split: if_splits)
    with i8 have "feature_dim s + int i < qc_num_qubits (neqr_circuit s)" by (rule assms(7))
    then show "qubit_in_range (qc_num_qubits (neqr_circuit s)) (feature_dim s + int (0 + i))"
      using assms(5) by (simp add: qubit_in_range_def)
  qed
  then have "pixel_value_loop (enumerate 0 ?bits) [0..feature_dim s - 1] (feature_dim s) (neqr_circuit s) =
      Inr (append_instructions (color_gates (feature_dim s) ?v) (neqr_circuit s))"
    unfolding sel color_gates_def .
  then show ?thesis
    by (simp add: pixel_value_def idx fmt)
qed

lemma pixel_value_raises:
  assumes "0 \<le> p" and "p < int (length (pixel_vals s))"
    and "0 \<le> pixel_vals s ! nat p" and "pixel_vals s ! nat p \<le> 255"
    and "0 \<le> feature_dim s" and "feature_dim s \<le> qc_num_qubits (neqr_circuit s)"
    and "i < 8" and "bit (pixel_vals s ! nat p) (7 - i)"
    and "qc_num_qubits (neqr_circuit s) \<le> feature_dim s + int i"
  shows "\<exists>q. pixel_value s p = Inl (CircuitError q (qc_num_qubits (neqr_circuit s)))"
proof -
  let ?v = "pixel_vals s ! nat p"
  let ?bits = "map (\<lambda>i. if bit ?v (7 - i) then CHR ''1'' else CHR ''0'') [0..<8]"
  have idx: "py_index ''list index out of range'' (pixel_vals s) p = Inr ?v"
    using assms(1,2) by (simp add: py_index_def)
  have fmt: "format_bin 8 ?v = ?bits"
    using assms(3,4) by (rule format_bin_8)
  have "\<exists>q. pixel_value_loop (enumerate 0 ?bits) [0..feature_dim s - 1] (feature_dim s) (neqr_circuit s) =
      Inl (CircuitError q (qc_num_qubits (neqr_circuit s)))"
  proof (rule pixel_value_loop_raises [where i = i])
    fix q assume "q \<in> set [0..feature_dim s - 1]"
    then show "qubit_in_range (qc_num_qubits (neqr_circuit s)) q"
      using assms(6) by (simp add: qubit_in_range_def)
  next
    show "i < length ?bits" using assms(7) by simp
    show "?bits ! i = CHR ''1''" using assms(7,8) by (simp del: upt_Suc)
    show "\<not> qubit_in_range (qc_num_qubits (neqr_circuit s)) (feature_dim s + int (0 + i))"
      using assms(9) by (simp add: qubit_in_range_def)
  qed
  then show ?thesis
    by (auto simp: pixel_value_def idx fmt)
qed

lemma NEQR_init_pixels:
  assumes "NEQR_init dims pixels m = Inr self0"
  shows "pixel_vals self0 = pixels" and "neqr_img_dims self0 = dims"
    and "int (length pixels) = fst dims * snd dims"
    and "\<And>p. 0 \<le> p \<Longrightarrow> p < fst dims * snd dims \<Longrightarrow> 0 \<le> pixels ! nat p \<and> pixels ! nat p \<le> 255"
proof -
  from assms show "pixel_vals self0 = pixels" "neqr_img_dims self0 = dims"
    and len: "int (length pixels) = fst dims * snd dims"
    by (simp_all add: NEQR_init_Inr)
  from assms have all: "list_all (\<lambda>v. 0 \<le> v \<and> v \<le> 255) pixels"
    by (simp add: NEQR_init_Inr)
  fix p :: int
  assume "0 \<le> p" "p < fst dims * snd dims"
  then have "nat p < length pixels" using len by linarith
  then show "0 \<le> pixels ! nat p \<and> pixels ! nat p \<le> 255"
    using all by (simp add: list_all_length)
qed


lemma NEQR_init_widths:
  assumes "NEQR_init dims pixels m = Inr self0"
  shows "0 \<le> feature_dim self0" and "0 \<le> color_qubits self0"
    and "qc_num_qubits (neqr_circuit self0) = feature_dim self0 + color_qubits self0"
    and "color_qubits self0 = int (ceil_log2_from 0 (nat (m + 1)))"
    and "0 \<le> m" and "m \<le> 255"
  using assms by (simp_all add: NEQR_init_Inr QuantumCircuit_def)

lemma ceil_log2_from_small:
  assumes "x \<le> 2 ^ j"
  shows "ceil_log2_from 0 x \<le> j"
proof -
  have "ceil_log2_from 0 x = 0 \<or> 2 ^ (ceil_log2_from 0 x - 1) < x"
    using ceil_log2_from_least [of 0 x] by simp
  then show ?thesis
  proof
    assume "ceil_log2_from 0 x = 0"
    then show ?thesis by simp
  next
    assume "2 ^ (ceil_log2_from 0 x - 1) < x"
    then have "(2::nat) ^ (ceil_log2_from 0 x - 1) < 2 ^ j"
      using assms by (rule less_le_trans)
    then have "ceil_log2_from 0 x - 1 < j"
      by (simp only: power_strict_increasing_iff semiring_norm)
    then show ?thesis by simp
  qed
qed


lemma ceil_log2_from_large:
  assumes "2 ^ j < x"
  shows "j < ceil_log2_from 0 x"
proof -
  have "x \<le> 2 ^ ceil_log2_from 0 x"
    using ceil_log2_from_least [of 0 x] by simp
  with assms have "(2::nat) ^ j < 2 ^ ceil_log2_from 0 x" by (rule less_le_trans)
  then show ?thesis
    by (simp only: power_strict_increasing_iff semiring_norm)
qed

lemma color_qubits_full:
  assumes "NEQR_init dims pixels m = Inr self0" and "128 \<le> m"
  shows "color_qubits self0 = 8"
proof -
  note w = NEQR_init_widths [OF assms(1)]
  have "nat (m + 1) \<le> 2 ^ 8" using w(6) by simp
  then have "ceil_log2_from 0 (nat (m + 1)) \<le> 8" by (rule ceil_log2_from_small)
  moreover have "2 ^ 7 < nat (m + 1)" using assms(2) by simp
  then have "7 < ceil_log2_from 0 (nat (m + 1))" by (rule ceil_log2_from_large)
  ultimately show ?thesis using w(4) by simp
qed





lemma format_bin_8_of_1: "format_bin 8 1 = ''00000001''"
  by code_simp

lemma ceil_log2_4: "ceil_log2_from 0 4 = 2"
  by code_simp

lemma narrow_neqr_constructed: "NEQR_init (2, 2) [0, 1, 2, 3] 3 = Inr narrow_neqr"
  by (simp add: NEQR_init_Inr narrow_neqr_def ceil_sqrt_4 ceil_log2_4)

lemma narrow_pixel_0:
  assumes "qc_num_qubits c = 4"
  shows "pixel_value (narrow_neqr\<lparr>neqr_circuit := c\<rparr>) 0 = Inr (narrow_neqr\<lparr>neqr_circuit := c\<rparr>)"
  using pixel_value_gates [of 0 "narrow_neqr\<lparr>neqr_circuit := c\<rparr>"] assms
  by (simp add: narrow_neqr_def color_gates_def append_instructions_def)

lemma narrow_pixel_1:
  assumes "qc_num_qubits c = 4"
  shows "pixel_value (narrow_neqr\<lparr>neqr_circuit := c\<rparr>) 1 = Inl (CircuitError 9 4)"
  using assms
  by (simp add: pixel_value_def py_index_def narrow_neqr_def format_bin_8_of_1 upto.simps
      mct_def check_qubits_def qubit_in_range_def enumerate_eq_zip upt_conv_Cons)



lemma hadamard_loop_ok:
  assumes "\<And>q. q \<in> set qs \<Longrightarrow> qubit_in_range (qc_num_qubits c) q"
  shows "hadamard_loop qs c = Inr (append_instructions (map HGate qs) c)"
  using assms
proof (induction qs arbitrary: c)
  case Nil
  then show ?case by (simp add: append_instructions_def)
next
  case (Cons q qs)
  have "check_qubits [q] c = Inr ()"
    using Cons.prems by (intro check_qubits_ok) simp
  then have hq: "h q c = Inr (append_instruction (HGate q) c)" by (simp add: h_def)
  have "hadamard_loop qs (append_instruction (HGate q) c) =
      Inr (append_instructions (map HGate qs) (append_instruction (HGate q) c))"
    using Cons.prems by (intro Cons.IH) (simp add: append_instruction_def)
  then show ?case
    by (simp add: hq append_instructions_def append_instruction_def)
qed

lemma build_circuit_loop_fold:
  assumes "\<And>b c. qc_num_qubits (pp b c) = qc_num_qubits c"
    and "\<And>p. p \<in> set ps \<Longrightarrow> 0 \<le> p \<and> p < int (length (pixel_vals s)) \<and>
      0 \<le> pixel_vals s ! nat p \<and> pixel_vals s ! nat p \<le> 255"
    and "0 \<le> feature_dim s" and "feature_dim s + 8 \<le> qc_num_qubits (neqr_circuit s)"
  shows "build_circuit_loop ps pp s =
     Inr (s\<lparr>neqr_circuit :=
            fold (\<lambda>pixel c. pp (format_bin 2 pixel)
                    (append_instructions (color_gates (feature_dim s) (pixel_vals s ! nat pixel))
                       (pp (format_bin 2 pixel) c)))
              ps (neqr_circuit s)\<rparr>)"
  using assms(2-)
proof (induction ps arbitrary: s)
  case Nil
  then show ?case by simp
next
  case (Cons pixel ps)
  let ?s1 = "s\<lparr>neqr_circuit := pp (format_bin 2 pixel) (neqr_circuit s)\<rparr>"
  let ?c2 = "append_instructions (color_gates (feature_dim s) (pixel_vals s ! nat pixel))
      (pp (format_bin 2 pixel) (neqr_circuit s))"
  let ?s3 = "s\<lparr>neqr_circuit := pp (format_bin 2 pixel) ?c2\<rparr>"
  have here: "0 \<le> pixel \<and> pixel < int (length (pixel_vals s)) \<and>
      0 \<le> pixel_vals s ! nat pixel \<and> pixel_vals s ! nat pixel \<le> 255"
    using Cons.prems(1) [of pixel] by simp
  have pv: "pixel_value ?s1 pixel = Inr (s\<lparr>neqr_circuit := ?c2\<rparr>)"
    using pixel_value_gates [of pixel ?s1] here Cons.prems(2,3) assms(1) by simp
  have w3: "qc_num_qubits (neqr_circuit ?s3) = qc_num_qubits (neqr_circuit s)"
    by (simp add: assms(1) append_instructions_def)
  have "build_circuit_loop (pixel # ps) pp s = build_circuit_loop ps pp ?s3"
    by (simp add: Let_def pv)
  also have "\<dots> = Inr (?s3\<lparr>neqr_circuit :=
            fold (\<lambda>pixel c. pp (format_bin 2 pixel)
                    (append_instructions (color_gates (feature_dim ?s3) (pixel_vals ?s3 ! nat pixel))
                       (pp (format_bin 2 pixel) c)))
              ps (neqr_circuit ?s3)\<rparr>)"
  proof (rule Cons.IH)
    fix p assume "p \<in> set ps"
    then show "0 \<le> p \<and> p < int (length (pixel_vals ?s3)) \<and>
        0 \<le> pixel_vals ?s3 ! nat p \<and> pixel_vals ?s3 ! nat p \<le> 255"
      using Cons.prems(1) by simp
  next
    show "0 \<le> feature_dim ?s3" using Cons.prems(2) by simp
    show "feature_dim ?s3 + 8 \<le> qc_num_qubits (neqr_circuit ?s3)"
      using Cons.prems(3) w3 by simp
  qed
  finally show ?case by simp
qed

lemma binary_value_zeros:
  "binary_value (replicate k (CHR ''0'') @ s) = binary_value s"
  by (induction k) (simp_all add: binary_value_def)

lemma binary_value_bin_digits: "binary_value (bin_digits n) = int n"
proof (induction n rule: bin_digits.induct)
  case (1 n)
  show ?case
  proof (cases "n < 2")
    case True
    then have "n = 0 \<or> n = 1" by auto
    then show ?thesis
      by (auto simp: bin_digits.simps [of n] binary_value_def digit_char_def)
  next
    case False
    have "binary_value (bin_digits n) =
        2 * binary_value (bin_digits (n div 2)) + (if digit_char (n mod 2) = CHR ''1'' then 1 else 0)"
      using False by (simp add: bin_digits.simps [of n] binary_value_def)
    also have "\<dots> = 2 * int (n div 2) + int (n mod 2)"
      using "1.IH" [OF False] by (auto simp: digit_char_def)
    also have "\<dots> = int n" by (simp add: zdiv_int zmod_int)
    finally show ?thesis .
  qed
qed

lemma format_bin_2_value:
  assumes "0 \<le> p"
  shows "binary_value (format_bin 2 p) = p \<and> 2 \<le> length (format_bin 2 p)"
  using assms by (simp add: format_bin_def Let_def binary_value_zeros binary_value_bin_digits)



text \<open>
  When the maximum intensity is at least 128 and \<^verbatim>\<open>pixel_position\<close> keeps the number of
  qubits, \<^verbatim>\<open>build_circuit\<close> applies a Hadamard gate to each of the qubits
  \<open>0, \<dots>, feature_dim - 1\<close>, then for each pixel from 0 to \<open>prod img_dims - 1\<close>, in
  increasing order, \<^verbatim>\<open>pixel_position\<close> on the binary string of the pixel, the gates of
  the pixel's color value, and the same \<^verbatim>\<open>pixel_position\<close> again; it returns the
  circuit, which is the one stored in the object. The binary string of a pixel
  denotes the pixel and has at least two digits.
\<close>

theorem build_circuit_steps:
  assumes "NEQR_init dims pixels m = Inr self0" and "128 \<le> m"
    and "\<And>b c. qc_num_qubits (pp b c) = qc_num_qubits c"
    and "qc_num_qubits c = qc_num_qubits (neqr_circuit self0)"
  shows "build_circuit pp (self0\<lparr>neqr_circuit := c\<rparr>) =
     (let final =
        fold (\<lambda>pixel c. pp (format_bin 2 pixel)
                (append_instructions (color_gates (feature_dim self0) (pixels ! nat pixel))
                   (pp (format_bin 2 pixel) c)))
          [0..math_prod [fst dims, snd dims] - 1]
          (append_instructions (map HGate [0..feature_dim self0 - 1]) c)
      in Inr (final, self0\<lparr>neqr_circuit := final\<rparr>)) \<and>
    (\<forall>pixel \<in> set [0..math_prod [fst dims, snd dims] - 1].
        binary_value (format_bin 2 pixel) = pixel \<and> 2 \<le> length (format_bin 2 pixel))"
proof -
  note f = NEQR_init_pixels [OF assms(1)]
  note w = NEQR_init_widths [OF assms(1)]
  have cq: "color_qubits self0 = 8" using assms(1,2) by (rule color_qubits_full)
  let ?c1 = "append_instructions (map HGate [0..feature_dim self0 - 1]) c"
  let ?s1 = "self0\<lparr>neqr_circuit := ?c1\<rparr>"
  have had: "hadamard_loop [0..feature_dim self0 - 1] c = Inr ?c1"
  proof (rule hadamard_loop_ok)
    fix q assume "q \<in> set [0..feature_dim self0 - 1]"
    then show "qubit_in_range (qc_num_qubits c) q"
      using w(2,3) assms(4) by (simp add: qubit_in_range_def)
  qed
  have loop: "build_circuit_loop [0..fst dims * snd dims - 1] pp ?s1 =
      Inr (?s1\<lparr>neqr_circuit :=
            fold (\<lambda>pixel c. pp (format_bin 2 pixel)
                    (append_instructions (color_gates (feature_dim ?s1) (pixel_vals ?s1 ! nat pixel))
                       (pp (format_bin 2 pixel) c)))
              [0..fst dims * snd dims - 1] (neqr_circuit ?s1)\<rparr>)"
  proof (rule build_circuit_loop_fold [OF assms(3)])
    fix p assume "p \<in> set [0..fst dims * snd dims - 1]"
    then show "0 \<le> p \<and> p < int (length (pixel_vals ?s1)) \<and>
        0 \<le> pixel_vals ?s1 ! nat p \<and> pixel_vals ?s1 ! nat p \<le> 255"
      using f(1) f(3) f(4) by simp
  next
    show "0 \<le> feature_dim ?s1" using w(1) by simp
    show "feature_dim ?s1 + 8 \<le> qc_num_qubits (neqr_circuit ?s1)"
      using w(3) cq assms(4) by (simp add: append_instructions_def)
  qed
  have "build_circuit pp (self0\<lparr>neqr_circuit := c\<rparr>) =
     (let final =
        fold (\<lambda>pixel c. pp (format_bin 2 pixel)
                (append_instructions (color_gates (feature_dim self0) (pixels ! nat pixel))
                   (pp (format_bin 2 pixel) c)))
          [0..math_prod [fst dims, snd dims] - 1]
          (append_instructions (map HGate [0..feature_dim self0 - 1]) c)
      in Inr (final, self0\<lparr>neqr_circuit := final\<rparr>))"
    using loop by (simp add: build_circuit_def had Let_def f(1) f(2) math_prod_pair)
  moreover have "\<forall>pixel \<in> set [0..math_prod [fst dims, snd dims] - 1].
        binary_value (format_bin 2 pixel) = pixel \<and> 2 \<le> length (format_bin 2 pixel)"
    using format_bin_2_value by simp
  ultimately show ?thesis by (rule conjI)
qed

lemma x_on_zeros_width: "qc_num_qubits (x_on_zeros b c) = qc_num_qubits c"
  by (simp add: x_on_zeros_def append_instructions_def)

lemma example_final_eq:
  "fold (\<lambda>pixel c. x_on_zeros (format_bin 2 pixel)
          (append_instructions (color_gates 2 ([0, 1, 2, 3] ! nat pixel))
             (x_on_zeros (format_bin 2 pixel) c)))
     [0..math_prod [fst (2::int, 2::int), snd (2::int, 2::int)] - 1]
     (append_instructions (map HGate [0..2 - 1]) (QuantumCircuit 10 :: unit QuantumCircuit)) =
   example_final"
  by code_simp

theorem build_circuit_steps_witness:
  "NEQR_init (2, 2) [0, 1, 2, 3] 255 = Inr example_neqr \<and>
   build_circuit x_on_zeros (example_neqr\<lparr>neqr_circuit := QuantumCircuit 10\<rparr>) =
     Inr (example_final, example_neqr\<lparr>neqr_circuit := example_final\<rparr>) \<and>
   binary_value (format_bin 2 3) = 3"
proof -
  have fd: "feature_dim example_neqr = 2" by (simp add: example_neqr_def)
  have w: "qc_num_qubits (QuantumCircuit 10 :: unit QuantumCircuit) = qc_num_qubits (neqr_circuit example_neqr)"
    by (simp add: example_neqr_def)
  have m: "(128::int) \<le> 255" by simp
  have "(3::int) \<in> set [0..math_prod [fst (2::int, 2::int), snd (2::int, 2::int)] - 1]"
    by (simp add: math_prod_pair)
  then show ?thesis
    using build_circuit_steps [where pp = x_on_zeros, OF example_neqr_constructed m x_on_zeros_width w]
      example_neqr_constructed
    unfolding fd example_final_eq
    by (simp add: Let_def)
qed

text \<open>
  C2: \<^verbatim>\<open>build_circuit\<close> on the NEQR object built from a 2 by 2 image with the pixel
  values 0 to 3 and the maximum intensity 3, with any \<^verbatim>\<open>pixel_position\<close> that keeps the
  number of qubits. The circuit has 4 qubits; at pixel 1 \<^verbatim>\<open>pixel_value\<close> asks for a gate
  on the qubit 9, and the method ends in the library's \<^verbatim>\<open>CircuitError\<close> instead of
  returning the circuit.
\<close>

theorem build_circuit_raises:
  assumes "\<And>b c. qc_num_qubits (pp b c) = qc_num_qubits c"
  shows "NEQR_init (2, 2) [0, 1, 2, 3] 3 = Inr narrow_neqr \<and>
     build_circuit pp narrow_neqr = Inl (CircuitError 9 4)"
proof -
  define c1 :: "unit QuantumCircuit"
    where "c1 = append_instructions (map HGate [0, 1]) (QuantumCircuit 4)"
  have fd: "feature_dim narrow_neqr = 2" and dims: "neqr_img_dims narrow_neqr = (2, 2)"
    and circ: "neqr_circuit narrow_neqr = QuantumCircuit 4"
    by (simp_all add: narrow_neqr_def)
  have r: "[0..2 - 1] = [0, 1 :: int]" by (simp add: upto.simps)
  have "hadamard_loop [0, 1] (QuantumCircuit 4 :: unit QuantumCircuit) = Inr c1"
    unfolding c1_def by (rule hadamard_loop_ok) (auto simp: qubit_in_range_def QuantumCircuit_def)
  then have had: "hadamard_loop [0..feature_dim narrow_neqr - 1] (neqr_circuit narrow_neqr) = Inr c1"
    by (simp only: fd r circ)
  have w1: "qc_num_qubits c1 = 4"
    by (simp add: c1_def append_instructions_def QuantumCircuit_def)
  have p0: "pixel_value (narrow_neqr\<lparr>neqr_circuit := pp b c1\<rparr>) 0 =
      Inr (narrow_neqr\<lparr>neqr_circuit := pp b c1\<rparr>)" for b
    by (rule narrow_pixel_0) (simp add: assms w1)
  have p1: "pixel_value (narrow_neqr\<lparr>neqr_circuit := pp b (pp b' (pp b' c1))\<rparr>) 1 =
      Inl (CircuitError 9 4)" for b b'
    by (rule narrow_pixel_1) (simp add: assms w1)
  have l: "[0..math_prod [fst (neqr_img_dims narrow_neqr), snd (neqr_img_dims narrow_neqr)] - 1] =
      [0, 1, 2, 3]"
    by (simp add: dims math_prod_pair upto.simps)
  have loop: "build_circuit_loop [0, 1, 2, 3] pp (narrow_neqr\<lparr>neqr_circuit := c1\<rparr>) =
      Inl (CircuitError 9 4)"
    by (simp add: Let_def p0 p1)
  have "build_circuit pp narrow_neqr = Inl (CircuitError 9 4)"
    unfolding build_circuit_def Let_def had l
    by (simp only: loop sum.case)
  then show ?thesis using narrow_neqr_constructed by simp
qed

theorem build_circuit_raises_witness:
  "qc_num_qubits (x_on_zeros ''01'' (QuantumCircuit 4 :: unit QuantumCircuit)) = 4 \<and>
   NEQR_init (2, 2) [0, 1, 2, 3] 3 = Inr narrow_neqr \<and>
   build_circuit x_on_zeros narrow_neqr = Inl (CircuitError 9 4)"
  using build_circuit_raises [where pp = x_on_zeros, OF x_on_zeros_width]
  by (simp add: x_on_zeros_width QuantumCircuit_def)

text \<open>
  The targets of \<^verbatim>\<open>pixel_value\<close> follow the eight bits of the color byte, not the number
  of color qubits: when the maximum intensity is at most 127, the circuit has at most
  \<open>feature_dim + 7\<close> qubits, and for a pixel of odd value \<^verbatim>\<open>pixel_value\<close> ends in a
  \<^verbatim>\<open>CircuitError\<close>.
\<close>

theorem pixel_value_target_outside_circuit:
  assumes "NEQR_init dims pixels m = Inr self0" and "m \<le> 127"
    and "qc_num_qubits c = qc_num_qubits (neqr_circuit self0)"
    and "0 \<le> p" and "p < fst dims * snd dims" and "odd (pixels ! nat p)"
  shows "qc_num_qubits c \<le> feature_dim self0 + 7 \<and>
     (\<exists>q. pixel_value (self0\<lparr>neqr_circuit := c\<rparr>) p = Inl (CircuitError q (qc_num_qubits c)))"
proof -
  note f = NEQR_init_pixels [OF assms(1)]
  note w = NEQR_init_widths [OF assms(1)]
  have "nat (m + 1) \<le> 2 ^ 7" using assms(2) by simp
  then have "ceil_log2_from 0 (nat (m + 1)) \<le> 7" by (rule ceil_log2_from_small)
  then have small: "qc_num_qubits c \<le> feature_dim self0 + 7"
    using w(3,4) assms(3) by simp
  let ?s = "self0\<lparr>neqr_circuit := c\<rparr>"
  have "\<exists>q. pixel_value ?s p = Inl (CircuitError q (qc_num_qubits (neqr_circuit ?s)))"
  proof (rule pixel_value_raises [where i = 7])
    show "0 \<le> p" by (rule assms(4))
    show "p < int (length (pixel_vals ?s))" using f(1) f(3) assms(5) by simp
    show "0 \<le> pixel_vals ?s ! nat p" "pixel_vals ?s ! nat p \<le> 255"
      using f(1) f(4) [OF assms(4,5)] by simp_all
    show "0 \<le> feature_dim ?s" using w(1) by simp
    show "feature_dim ?s \<le> qc_num_qubits (neqr_circuit ?s)" using w(2,3) assms(3) by simp
    show "(7::nat) < 8" by simp
    show "bit (pixel_vals ?s ! nat p) (7 - 7)" using assms(6) f(1) by (simp add: bit_0)
    show "qc_num_qubits (neqr_circuit ?s) \<le> feature_dim ?s + int 7" using small by simp
  qed
  then show ?thesis using small by simp
qed

theorem pixel_value_target_outside_circuit_witness:
  "NEQR_init (2, 2) [0, 1, 2, 3] 3 = Inr narrow_neqr \<and> odd ([0, 1, 2, 3 :: int] ! nat 1) \<and>
   qc_num_qubits (QuantumCircuit 4 :: unit QuantumCircuit) \<le> feature_dim narrow_neqr + 7 \<and>
   (\<exists>q. pixel_value (narrow_neqr\<lparr>neqr_circuit := QuantumCircuit 4\<rparr>) 1 = Inl (CircuitError q 4))"
proof -
  have o: "odd ([0, 1, 2, 3 :: int] ! nat 1)" by simp
  have w: "qc_num_qubits (QuantumCircuit 4 :: unit QuantumCircuit) = qc_num_qubits (neqr_circuit narrow_neqr)"
    by (simp add: narrow_neqr_def)
  have m: "(3::int) \<le> 127" by simp
  show ?thesis
    using pixel_value_target_outside_circuit [OF narrow_neqr_constructed m w _ _ o]
      narrow_neqr_constructed o
    by (simp add: QuantumCircuit_def)
qed

end
